theory Spec2Isabelle
  imports Main
begin

section \<open>Orchestration-platform object types\<close>

text \<open>
  The StatefulSet builder of \<^verbatim>\<open>internal/resource/statefulset.go\<close> assembles values of the
  platform's API types. Each struct the builder touches is a record with the fields the
  builder reads or writes; a pointer field is an \<open>option\<close>, a slice is a list and a
  \<^verbatim>\<open>map[string]string\<close> is a partial function. Fields an object literal of the source leaves
  out hold Go's zero value: the empty string, \<open>None\<close>, the empty list, the empty map.
\<close>

type_synonym StringMap = "string \<rightharpoonup> string"

text \<open>
  A resource quantity: its numeric value in thousandths of the unit and the notation it was
  written in. \<^verbatim>\<open>Quantity.Equal\<close> compares the numeric value only.
\<close>

record Quantity =
  q_Milli :: int
  q_Format :: string

type_synonym ResourceList = "string \<rightharpoonup> Quantity"

record ResourceRequirements =
  rr_Limits :: ResourceList
  rr_Requests :: ResourceList

record OwnerReference =
  or_APIVersion :: string
  or_Kind :: string
  or_Name :: string
  or_UID :: string
  or_Controller :: "bool option"
  or_BlockOwnerDeletion :: "bool option"

text \<open>
  Object metadata. \<open>om_UID\<close>, \<open>om_ResourceVersion\<close> and \<open>om_CreationTimestamp\<close> are the
  identifiers and the timestamp the platform assigns; the builder never names them.
\<close>

record ObjectMeta =
  om_Name :: string
  om_Namespace :: string
  om_UID :: string
  om_ResourceVersion :: string
  om_CreationTimestamp :: string
  om_Labels :: StringMap
  om_Annotations :: StringMap
  om_OwnerReferences :: "OwnerReference list"

record VolumeMount =
  vm_Name :: string
  vm_MountPath :: string

record ObjectFieldSelector =
  fs_FieldPath :: string
  fs_APIVersion :: string

text \<open>An environment variable: a literal value, or a reference to a field of the pod.\<close>

record EnvVar =
  ev_Name :: string
  ev_Value :: string
  ev_ValueFrom :: "ObjectFieldSelector option"

record ContainerPort =
  cp_Name :: string
  cp_ContainerPort :: int

datatype Handler = Exec "string list"

record Probe =
  pr_Handler :: Handler
  pr_InitialDelaySeconds :: int
  pr_TimeoutSeconds :: int
  pr_PeriodSeconds :: int
  pr_SuccessThreshold :: int
  pr_FailureThreshold :: int

record Lifecycle =
  lc_PreStop :: "Handler option"

record Container =
  c_Name :: string
  c_Image :: string
  c_Command :: "string list"
  c_Env :: "EnvVar list"
  c_Ports :: "ContainerPort list"
  c_VolumeMounts :: "VolumeMount list"
  c_Resources :: ResourceRequirements
  c_ReadinessProbe :: "Probe option"
  c_Lifecycle :: "Lifecycle option"

record KeyToPath =
  kp_Key :: string
  kp_Path :: string

datatype VolumeSource =
    Secret string "KeyToPath list"
  | ConfigMap string
  | EmptyDir

record Volume =
  v_Name :: string
  v_VolumeSource :: VolumeSource

record PodSecurityContext =
  sc_FSGroup :: "int option"
  sc_RunAsGroup :: "int option"
  sc_RunAsUser :: "int option"

text \<open>Scheduling constraints are carried from the cluster spec to the pod unread.\<close>

datatype Affinity = Affinity string
datatype Toleration = Toleration string

record PodSpec =
  ps_SecurityContext :: "PodSecurityContext option"
  ps_TerminationGracePeriodSeconds :: "int option"
  ps_ServiceAccountName :: string
  ps_AutomountServiceAccountToken :: "bool option"
  ps_InitContainers :: "Container list"
  ps_Containers :: "Container list"
  ps_Volumes :: "Volume list"
  ps_ImagePullSecrets :: "string list"
  ps_Affinity :: "Affinity option"
  ps_Tolerations :: "Toleration list"

record PodTemplateSpec =
  pt_ObjectMeta :: ObjectMeta
  pt_Spec :: PodSpec

datatype PersistentVolumeAccessMode = ReadWriteOnce | ReadOnlyMany | ReadWriteMany

record PersistentVolumeClaimSpec =
  pvcs_AccessModes :: "PersistentVolumeAccessMode list"
  pvcs_Resources :: ResourceRequirements
  pvcs_StorageClassName :: "string option"

record PersistentVolumeClaim =
  pvc_ObjectMeta :: ObjectMeta
  pvc_Spec :: PersistentVolumeClaimSpec

record LabelSelector =
  ls_MatchLabels :: StringMap

record StatefulSetSpec =
  ss_Replicas :: "int option"
  ss_ServiceName :: string
  ss_Selector :: "LabelSelector option"
  ss_VolumeClaimTemplates :: "PersistentVolumeClaim list"
  ss_Template :: PodTemplateSpec

record StatefulSet =
  sts_ObjectMeta :: ObjectMeta
  sts_Spec :: StatefulSetSpec

text \<open>
  A \<^verbatim>\<open>runtime.Object\<close> is an interface value: it holds a pointer to a StatefulSet, which
  may be a nil pointer, or an object of some other kind (named by the string).
\<close>

datatype RuntimeObject =
    StatefulSetObject StatefulSet
  | NilStatefulSetObject
  | OtherObject string

section \<open>The cluster specification\<close>

record RabbitmqClusterPersistenceSpec =
  p_StorageClassName :: "string option"
  p_Storage :: "Quantity option"

record RabbitmqClusterSpec =
  spec_Replicas :: int
  spec_Image :: string
  spec_ImagePullSecret :: string
  spec_Resources :: "ResourceRequirements option"
  spec_Persistence :: RabbitmqClusterPersistenceSpec
  spec_Affinity :: "Affinity option"
  spec_Tolerations :: "Toleration list"

record RabbitmqCluster =
  rc_ObjectMeta :: ObjectMeta
  rc_Spec :: RabbitmqClusterSpec

section \<open>Zero values\<close>

definition zero_ObjectMeta :: ObjectMeta where
  "zero_ObjectMeta =
     \<lparr>om_Name = [], om_Namespace = [], om_UID = [], om_ResourceVersion = [],
      om_CreationTimestamp = [], om_Labels = Map.empty, om_Annotations = Map.empty,
      om_OwnerReferences = []\<rparr>"

definition zero_ResourceRequirements :: ResourceRequirements where
  "zero_ResourceRequirements = \<lparr>rr_Limits = Map.empty, rr_Requests = Map.empty\<rparr>"

definition zero_Container :: Container where
  "zero_Container =
     \<lparr>c_Name = [], c_Image = [], c_Command = [], c_Env = [], c_Ports = [],
      c_VolumeMounts = [], c_Resources = zero_ResourceRequirements,
      c_ReadinessProbe = None, c_Lifecycle = None\<rparr>"

definition zero_PodSpec :: PodSpec where
  "zero_PodSpec =
     \<lparr>ps_SecurityContext = None, ps_TerminationGracePeriodSeconds = None,
      ps_ServiceAccountName = [], ps_AutomountServiceAccountToken = None,
      ps_InitContainers = [], ps_Containers = [], ps_Volumes = [],
      ps_ImagePullSecrets = [], ps_Affinity = None, ps_Tolerations = []\<rparr>"

definition zero_PodTemplateSpec :: PodTemplateSpec where
  "zero_PodTemplateSpec = \<lparr>pt_ObjectMeta = zero_ObjectMeta, pt_Spec = zero_PodSpec\<rparr>"

section \<open>Collaborators outside the builder's file\<close>

text \<open>
  The builder calls helpers that live in other packages: the naming method and the name
  suffixes of the cluster type, the metadata package's label and annotation functions, the
  controller runtime's owner-reference setter and the platform's quantity parser. They are
  parameters of the model, one field each.

  \<^item> \<open>ChildResourceName\<close> receives the instance name and a suffix.
  \<^item> \<open>SetControllerReference\<close> receives the owner's metadata and the controlled object's
    namespace and owner references; it answers the owner references the controlled object
    has afterwards, or an error message, or it panics, as the library does when the builder's
    \<^verbatim>\<open>Scheme\<close> is nil (the scheme is part of this parameter). It writes no other field.
  \<^item> \<open>ParseQuantity\<close> answers an error message or the quantity.
  \<^item> The helpers of the repository's own packages are taken to return.
\<close>

datatype setter_failure = SetterError string | SetterPanic

record deps =
  ChildResourceName :: "string \<Rightarrow> string \<Rightarrow> string"
  headlessServiceName :: string
  serviceAccountName :: string
  adminSecretName :: string
  serverConfigMapName :: string
  erlangCookieName :: string
  Label :: "string \<Rightarrow> StringMap"
  LabelSelector :: "string \<Rightarrow> StringMap"
  GetLabels :: "string \<Rightarrow> StringMap \<Rightarrow> StringMap"
  ReconcileAnnotations :: "StringMap \<Rightarrow> StringMap \<Rightarrow> StringMap"
  SetControllerReference ::
    "ObjectMeta \<Rightarrow> string \<Rightarrow> OwnerReference list \<Rightarrow> setter_failure + OwnerReference list"
  ParseQuantity :: "string \<Rightarrow> string + Quantity"

text \<open>\<^verbatim>\<open>ResourceList.Memory()\<close>: the entry under "memory", or a zero quantity.\<close>

definition Memory :: "ResourceList \<Rightarrow> Quantity" where
  "Memory rl =
     (case rl ''memory'' of
        Some q \<Rightarrow> q
      | None \<Rightarrow> \<lparr>q_Milli = 0, q_Format = ''BinarySI''\<rparr>)"

definition Quantity_Equal :: "Quantity \<Rightarrow> Quantity \<Rightarrow> bool" where
  "Quantity_Equal a b = (q_Milli a = q_Milli b)"

section \<open>Errors, panics and results\<close>

datatype error =
    ControllerReferenceError string
  | QuantityError string
  | PanicTypeAssertion
  | PanicNilPointer
  | PanicIndexOutOfRange
  | PanicInSetControllerReference

fun is_panic :: "error \<Rightarrow> bool" where
  "is_panic PanicTypeAssertion = True"
| "is_panic PanicNilPointer = True"
| "is_panic PanicIndexOutOfRange = True"
| "is_panic PanicInSetControllerReference = True"
| "is_panic _ = False"

text \<open>
  How the builder passes on a failure of \<^verbatim>\<open>SetControllerReference\<close>: an error is wrapped by
  \<^verbatim>\<open>fmt.Errorf("failed setting controller reference: %v", err)\<close>, a panic goes through.
\<close>

fun setterError :: "setter_failure \<Rightarrow> error" where
  "setterError (SetterError err) = ControllerReferenceError err"
| "setterError SetterPanic = PanicInSetControllerReference"

text \<open>
  \<^verbatim>\<open>Update\<close> mutates the object it is given, so the object as the call leaves it is part
  of every outcome: \<open>failure\<close> is \<open>None\<close> for a nil error, \<open>object\<close> the object after the
  call (also when it stopped early) and \<open>logged\<close> the lines written to the logger.
\<close>

record 'a outcome =
  failure :: "error option"
  object :: 'a
  logged :: "string list"

section \<open>The StatefulSet builder\<close>

definition defaultGracePeriodTimeoutSeconds :: int where
  "defaultGracePeriodTimeoutSeconds = 60 * 60 * 24 * 7"

definition initContainerCPU :: string where
  "initContainerCPU = ''100m''"

definition initContainerMemory :: string where
  "initContainerMemory = ''500Mi''"

text \<open>The builder: the cluster instance it builds for (the scheme is inside \<open>deps\<close>).\<close>

definition Name :: "RabbitmqCluster \<Rightarrow> string" where
  "Name inst = om_Name (rc_ObjectMeta inst)"

definition Namespace :: "RabbitmqCluster \<Rightarrow> string" where
  "Namespace inst = om_Namespace (rc_ObjectMeta inst)"

definition Labels :: "RabbitmqCluster \<Rightarrow> StringMap" where
  "Labels inst = om_Labels (rc_ObjectMeta inst)"

definition Annotations :: "RabbitmqCluster \<Rightarrow> StringMap" where
  "Annotations inst = om_Annotations (rc_ObjectMeta inst)"

subsection \<open>The pod template\<close>

definition mount :: "string \<Rightarrow> string \<Rightarrow> VolumeMount" where
  "mount n p = \<lparr>vm_Name = n, vm_MountPath = p\<rparr>"

definition env_value :: "string \<Rightarrow> string \<Rightarrow> EnvVar" where
  "env_value n v = \<lparr>ev_Name = n, ev_Value = v, ev_ValueFrom = None\<rparr>"

definition env_field :: "string \<Rightarrow> string \<Rightarrow> EnvVar" where
  "env_field n path =
     \<lparr>ev_Name = n, ev_Value = [],
      ev_ValueFrom = Some \<lparr>fs_FieldPath = path, fs_APIVersion = ''v1''\<rparr>\<rparr>"

definition port :: "string \<Rightarrow> int \<Rightarrow> ContainerPort" where
  "port n p = \<lparr>cp_Name = n, cp_ContainerPort = p\<rparr>"

definition copyConfigCommand :: "string list" where
  "copyConfigCommand =
     [''sh'', ''-c'',
      ''cp /tmp/rabbitmq/rabbitmq.conf /etc/rabbitmq/rabbitmq.conf && echo ''
        @ [CHR 0x27, CHR 0x27] @ '' >> /etc/rabbitmq/rabbitmq.conf ; ''
        @ ''cp /tmp/erlang-cookie-secret/.erlang.cookie /var/lib/rabbitmq/.erlang.cookie ''
        @ ''&& chown 999:999 /var/lib/rabbitmq/.erlang.cookie ''
        @ ''&& chmod 600 /var/lib/rabbitmq/.erlang.cookie'']"

definition preStopCommand :: "string list" where
  "preStopCommand =
     [''/bin/bash'', ''-c'',
      ''while true; do rabbitmq-queues check_if_node_is_quorum_critical''
        @ '' 2>&1; if [ $(echo $?) -eq 69 ]; then sleep 2; continue; fi;''
        @ '' rabbitmq-queues check_if_node_is_mirror_sync_critical''
        @ '' 2>&1; if [ $(echo $?) -eq 69 ]; then sleep 2; continue; fi; break;''
        @ '' done'']"

definition initContainer :: Container where
  "initContainer =
     zero_Container
       \<lparr>c_Name := ''copy-config'',
        c_Command := copyConfigCommand,
        c_VolumeMounts :=
          [mount ''server-conf'' ''/tmp/rabbitmq/'',
           mount ''rabbitmq-etc'' ''/etc/rabbitmq/'',
           mount ''rabbitmq-erlang-cookie'' ''/var/lib/rabbitmq/'',
           mount ''erlang-cookie-secret'' ''/tmp/erlang-cookie-secret/'']\<rparr>"

definition rabbitmqEnv :: "deps \<Rightarrow> RabbitmqCluster \<Rightarrow> EnvVar list" where
  "rabbitmqEnv d inst =
     [env_value ''RABBITMQ_ENABLED_PLUGINS_FILE'' ''/opt/server-conf/enabled_plugins'',
      env_value ''RABBITMQ_DEFAULT_PASS_FILE'' ''/opt/rabbitmq-secret/password'',
      env_value ''RABBITMQ_DEFAULT_USER_FILE'' ''/opt/rabbitmq-secret/username'',
      env_value ''RABBITMQ_MNESIA_BASE'' ''/var/lib/rabbitmq/db'',
      env_field ''MY_POD_NAME'' ''metadata.name'',
      env_field ''MY_POD_NAMESPACE'' ''metadata.namespace'',
      env_value ''K8S_SERVICE_NAME'' (ChildResourceName d (Name inst) ''headless''),
      env_value ''RABBITMQ_USE_LONGNAME'' ''true'',
      env_value ''RABBITMQ_NODENAME''
        ''rabbit@$(MY_POD_NAME).$(K8S_SERVICE_NAME).$(MY_POD_NAMESPACE).svc.cluster.local'',
      env_value ''K8S_HOSTNAME_SUFFIX''
        ''.$(K8S_SERVICE_NAME).$(MY_POD_NAMESPACE).svc.cluster.local'']"

definition rabbitmqPorts :: "ContainerPort list" where
  "rabbitmqPorts =
     [port ''epmd'' 4369, port ''amqp'' 5672, port ''http'' 15672, port ''prometheus'' 15692]"

definition readinessProbe :: Probe where
  "readinessProbe =
     \<lparr>pr_Handler = Exec [''/bin/sh'', ''-c'', ''rabbitmq-diagnostics check_port_connectivity''],
      pr_InitialDelaySeconds = 10,
      pr_TimeoutSeconds = 5,
      pr_PeriodSeconds = 30,
      pr_SuccessThreshold = 1,
      pr_FailureThreshold = 3\<rparr>"

definition rabbitmqContainer :: "deps \<Rightarrow> RabbitmqCluster \<Rightarrow> Container" where
  "rabbitmqContainer d inst =
     zero_Container
       \<lparr>c_Name := ''rabbitmq'',
        c_Env := rabbitmqEnv d inst,
        c_Ports := rabbitmqPorts,
        c_VolumeMounts :=
          [mount ''server-conf'' ''/opt/server-conf/'',
           mount ''rabbitmq-admin'' ''/opt/rabbitmq-secret/'',
           mount ''persistence'' ''/var/lib/rabbitmq/db/'',
           mount ''rabbitmq-etc'' ''/etc/rabbitmq/'',
           mount ''rabbitmq-erlang-cookie'' ''/var/lib/rabbitmq/''],
        c_ReadinessProbe := Some readinessProbe,
        c_Lifecycle := Some \<lparr>lc_PreStop = Some (Exec preStopCommand)\<rparr>\<rparr>"

definition podVolumes :: "deps \<Rightarrow> RabbitmqCluster \<Rightarrow> Volume list" where
  "podVolumes d inst =
     [\<lparr>v_Name = ''rabbitmq-admin'',
       v_VolumeSource =
         Secret (ChildResourceName d (Name inst) (adminSecretName d))
           [\<lparr>kp_Key = ''username'', kp_Path = ''username''\<rparr>,
            \<lparr>kp_Key = ''password'', kp_Path = ''password''\<rparr>]\<rparr>,
      \<lparr>v_Name = ''server-conf'',
       v_VolumeSource = ConfigMap (ChildResourceName d (Name inst) (serverConfigMapName d))\<rparr>,
      \<lparr>v_Name = ''rabbitmq-etc'', v_VolumeSource = EmptyDir\<rparr>,
      \<lparr>v_Name = ''rabbitmq-erlang-cookie'', v_VolumeSource = EmptyDir\<rparr>,
      \<lparr>v_Name = ''erlang-cookie-secret'',
       v_VolumeSource = Secret (ChildResourceName d (Name inst) (erlangCookieName d)) []\<rparr>]"

definition podTemplateSpec :: "deps \<Rightarrow> RabbitmqCluster \<Rightarrow> PodTemplateSpec" where
  "podTemplateSpec d inst =
     (let automountServiceAccountToken = True;
          rabbitmqGID = 999;
          rabbitmqUID = 999;
          terminationGracePeriod = defaultGracePeriodTimeoutSeconds
      in \<lparr>pt_ObjectMeta = zero_ObjectMeta,
          pt_Spec =
            zero_PodSpec
              \<lparr>ps_SecurityContext :=
                 Some \<lparr>sc_FSGroup = Some rabbitmqGID,
                       sc_RunAsGroup = Some rabbitmqGID,
                       sc_RunAsUser = Some rabbitmqUID\<rparr>,
               ps_TerminationGracePeriodSeconds := Some terminationGracePeriod,
               ps_ServiceAccountName := ChildResourceName d (Name inst) (serviceAccountName d),
               ps_AutomountServiceAccountToken := Some automountServiceAccountToken,
               ps_InitContainers := [initContainer],
               ps_Containers := [rabbitmqContainer d inst],
               ps_Volumes := podVolumes d inst\<rparr>\<rparr>)"

subsection \<open>The storage-claim template\<close>

text \<open>
  The claim literal dereferences \<^verbatim>\<open>instance.Spec.Persistence.Storage\<close> while it is built,
  before the owner reference is set: a nil pointer there is a panic.
\<close>

definition persistentVolumeClaim ::
    "deps \<Rightarrow> RabbitmqCluster \<Rightarrow> error + PersistentVolumeClaim list" where
  "persistentVolumeClaim d inst =
     (case p_Storage (spec_Persistence (rc_Spec inst)) of
        None \<Rightarrow> Inl PanicNilPointer
      | Some storage \<Rightarrow>
          let pvc =
                \<lparr>pvc_ObjectMeta =
                   zero_ObjectMeta
                     \<lparr>om_Name := ''persistence'',
                      om_Namespace := Namespace inst,
                      om_Labels := Label d (Name inst),
                      om_Annotations := ReconcileAnnotations d Map.empty (Annotations inst)\<rparr>,
                 pvc_Spec =
                   \<lparr>pvcs_AccessModes = [ReadWriteOnce],
                    pvcs_Resources =
                      \<lparr>rr_Limits = Map.empty, rr_Requests = [''storage'' \<mapsto> storage]\<rparr>,
                    pvcs_StorageClassName =
                      p_StorageClassName (spec_Persistence (rc_Spec inst))\<rparr>\<rparr>
          in case SetControllerReference d (rc_ObjectMeta inst)
                    (om_Namespace (pvc_ObjectMeta pvc))
                    (om_OwnerReferences (pvc_ObjectMeta pvc)) of
               Inl err \<Rightarrow> Inl (setterError err)
             | Inr refs \<Rightarrow>
                 Inr [pvc\<lparr>pvc_ObjectMeta :=
                            (pvc_ObjectMeta pvc)\<lparr>om_OwnerReferences := refs\<rparr>\<rparr>])"

subsection \<open>Build\<close>

definition statefulSet :: "deps \<Rightarrow> RabbitmqCluster \<Rightarrow> error + StatefulSet" where
  "statefulSet d inst =
     (case persistentVolumeClaim d inst of
        Inl err \<Rightarrow> Inl err
      | Inr pvc \<Rightarrow>
          Inr \<lparr>sts_ObjectMeta =
                 zero_ObjectMeta
                   \<lparr>om_Name := ChildResourceName d (Name inst) ''server'',
                    om_Namespace := Namespace inst\<rparr>,
               sts_Spec =
                 \<lparr>ss_Replicas = None,
                  ss_ServiceName = ChildResourceName d (Name inst) (headlessServiceName d),
                  ss_Selector = Some \<lparr>ls_MatchLabels = LabelSelector d (Name inst)\<rparr>,
                  ss_VolumeClaimTemplates = pvc,
                  ss_Template = zero_PodTemplateSpec\<rparr>\<rparr>)"

definition Build :: "deps \<Rightarrow> RabbitmqCluster \<Rightarrow> error + RuntimeObject" where
  "Build d inst =
     (case statefulSet d inst of
        Inl err \<Rightarrow> Inl err
      | Inr sts \<Rightarrow> Inr (StatefulSetObject sts))"

subsection \<open>Update\<close>

text \<open>
  Assignments through a path of fields: \<open>on_meta f\<close> rewrites \<^verbatim>\<open>sts.ObjectMeta\<close>, \<open>on_spec f\<close>
  rewrites \<^verbatim>\<open>sts.Spec\<close>, \<open>on_template f\<close> rewrites \<^verbatim>\<open>sts.Spec.Template\<close>, \<open>on_template_meta f\<close>
  rewrites \<^verbatim>\<open>sts.Spec.Template.ObjectMeta\<close> and \<open>on_pod f\<close> rewrites \<^verbatim>\<open>sts.Spec.Template.Spec\<close>;
  every other field keeps its value.
\<close>

definition on_meta :: "(ObjectMeta \<Rightarrow> ObjectMeta) \<Rightarrow> StatefulSet \<Rightarrow> StatefulSet" where
  "on_meta f = sts_ObjectMeta_update f"

definition on_spec :: "(StatefulSetSpec \<Rightarrow> StatefulSetSpec) \<Rightarrow> StatefulSet \<Rightarrow> StatefulSet" where
  "on_spec f = sts_Spec_update f"

definition on_template :: "(PodTemplateSpec \<Rightarrow> PodTemplateSpec) \<Rightarrow> StatefulSet \<Rightarrow> StatefulSet" where
  "on_template f = sts_Spec_update (ss_Template_update f)"

definition on_template_meta :: "(ObjectMeta \<Rightarrow> ObjectMeta) \<Rightarrow> StatefulSet \<Rightarrow> StatefulSet" where
  "on_template_meta f = sts_Spec_update (ss_Template_update (pt_ObjectMeta_update f))"

definition on_pod :: "(PodSpec \<Rightarrow> PodSpec) \<Rightarrow> StatefulSet \<Rightarrow> StatefulSet" where
  "on_pod f = sts_Spec_update (ss_Template_update (pt_Spec_update f))"

definition pod :: "StatefulSet \<Rightarrow> PodSpec" where
  "pod sts = pt_Spec (ss_Template (sts_Spec sts))"

definition memoryWarning :: "string \<Rightarrow> string" where
  "memoryWarning name =
     ''Warning: Memory request and limit are not equal for '' @ [CHR 0x22] @ name @ [CHR 0x22]
       @ ''. It is recommended that they be set to the same value''"

definition stopped :: "error \<Rightarrow> 'a \<Rightarrow> 'a outcome" where
  "stopped e x = \<lparr>failure = Some e, object = x, logged = []\<rparr>"

text \<open>
  \<^verbatim>\<open>xs[0].field = v\<close> on a slice: \<open>set0\<close> rewrites the first element. On an empty slice
  the write panics, which the caller tests before the first write to each slice.
\<close>

definition set0 :: "('a \<Rightarrow> 'a) \<Rightarrow> 'a list \<Rightarrow> 'a list" where
  "set0 f xs = (case xs of [] \<Rightarrow> [] | x # ys \<Rightarrow> f x # ys)"

definition on_initContainer0 :: "(Container \<Rightarrow> Container) \<Rightarrow> StatefulSet \<Rightarrow> StatefulSet" where
  "on_initContainer0 f = on_pod (ps_InitContainers_update (set0 f))"

definition on_container0 :: "(Container \<Rightarrow> Container) \<Rightarrow> StatefulSet \<Rightarrow> StatefulSet" where
  "on_container0 f = on_pod (ps_Containers_update (set0 f))"

text \<open>
  \<^verbatim>\<open>*builder.Instance.Spec.Resources\<close> panics on a nil pointer; the right-hand side of the
  assignment is evaluated before the indexed element is written.
\<close>

definition setStatefulSetParams ::
    "deps \<Rightarrow> RabbitmqCluster \<Rightarrow> StatefulSet \<Rightarrow> StatefulSet outcome" where
  "setStatefulSetParams d inst sts =
     (case SetControllerReference d (rc_ObjectMeta inst)
             (om_Namespace (sts_ObjectMeta sts)) (om_OwnerReferences (sts_ObjectMeta sts)) of
        Inl err \<Rightarrow> stopped (setterError err) sts
      | Inr refs \<Rightarrow>
          let sts = on_meta (\<lambda>m. m\<lparr>om_OwnerReferences := refs\<rparr>) sts;
              updatedLabels = GetLabels d (Name inst) (Labels inst);
              sts = on_meta (\<lambda>m. m\<lparr>om_Labels := updatedLabels\<rparr>) sts;
              sts = on_template_meta (\<lambda>m. m\<lparr>om_Labels := updatedLabels\<rparr>) sts;
              replicas = spec_Replicas (rc_Spec inst);
              sts = on_spec (\<lambda>s. s\<lparr>ss_Replicas := Some replicas\<rparr>) sts
          in case ParseQuantity d initContainerCPU of
               Inl err \<Rightarrow> stopped (QuantityError err) sts
             | Inr cpuRequest \<Rightarrow>
          (case ParseQuantity d initContainerMemory of
               Inl err \<Rightarrow> stopped (QuantityError err) sts
             | Inr memoryRequest \<Rightarrow>
          if ps_InitContainers (pod sts) = [] then stopped PanicIndexOutOfRange sts
          else
          let sts = on_initContainer0 (\<lambda>c. c\<lparr>c_Resources :=
                      \<lparr>rr_Limits = [''cpu'' \<mapsto> cpuRequest, ''memory'' \<mapsto> memoryRequest],
                       rr_Requests = [''cpu'' \<mapsto> cpuRequest, ''memory'' \<mapsto> memoryRequest]\<rparr>\<rparr>)
                      sts
          in case spec_Resources (rc_Spec inst) of
               None \<Rightarrow> stopped PanicNilPointer sts
             | Some resources \<Rightarrow>
          if ps_Containers (pod sts) = [] then stopped PanicIndexOutOfRange sts
          else
          let sts = on_container0 (\<lambda>c. c\<lparr>c_Resources := resources\<rparr>) sts;
              log = (if \<not> Quantity_Equal (Memory (rr_Limits resources))
                                          (Memory (rr_Requests resources))
                     then [memoryWarning (om_Name (sts_ObjectMeta sts))] else []);
              sts = on_initContainer0 (\<lambda>c. c\<lparr>c_Image := spec_Image (rc_Spec inst)\<rparr>) sts;
              sts = on_container0 (\<lambda>c. c\<lparr>c_Image := spec_Image (rc_Spec inst)\<rparr>) sts;
              sts = on_pod (\<lambda>p. p\<lparr>ps_ImagePullSecrets := []\<rparr>) sts;
              sts = (if spec_ImagePullSecret (rc_Spec inst) \<noteq> []
                     then on_pod (ps_ImagePullSecrets_update
                            (\<lambda>secrets. secrets @ [spec_ImagePullSecret (rc_Spec inst)])) sts
                     else sts);
              sts = on_pod (\<lambda>p. p\<lparr>ps_Affinity := spec_Affinity (rc_Spec inst)\<rparr>) sts;
              sts = on_pod (\<lambda>p. p\<lparr>ps_Tolerations := spec_Tolerations (rc_Spec inst)\<rparr>) sts
          in \<lparr>failure = None, object = sts, logged = log\<rparr>))"

text \<open>
  \<^verbatim>\<open>object.(*appsv1.StatefulSet)\<close> is a type assertion without the comma-ok form: it panics
  when the object is of another kind. A nil StatefulSet pointer passes the assertion and
  panics in the next line, where \<^verbatim>\<open>sts.Spec.Template.Annotations\<close> is read. Both annotation
  maps are reconciled from the object as it was, before the pod template is replaced.
\<close>

definition Update :: "deps \<Rightarrow> RabbitmqCluster \<Rightarrow> RuntimeObject \<Rightarrow> RuntimeObject outcome" where
  "Update d inst obj =
     (case obj of
        OtherObject kind \<Rightarrow> stopped PanicTypeAssertion obj
      | NilStatefulSetObject \<Rightarrow> stopped PanicNilPointer obj
      | StatefulSetObject sts \<Rightarrow>
          let podAnnotations =
                ReconcileAnnotations d
                  (om_Annotations (pt_ObjectMeta (ss_Template (sts_Spec sts)))) (Annotations inst);
              annotations =
                ReconcileAnnotations d (om_Annotations (sts_ObjectMeta sts)) (Annotations inst);
              sts = on_template (\<lambda>_. podTemplateSpec d inst) sts;
              sts = on_template_meta (\<lambda>m. m\<lparr>om_Annotations := podAnnotations\<rparr>) sts;
              sts = on_meta (\<lambda>m. m\<lparr>om_Annotations := annotations\<rparr>) sts;
              r = setStatefulSetParams d inst sts
          in \<lparr>failure = failure r, object = StatefulSetObject (object r), logged = logged r\<rparr>)"

subsection \<open>The methods on a builder\<close>

text \<open>
  \<open>Build\<close> and \<open>Update\<close> above are the methods of a builder whose \<^verbatim>\<open>Instance\<close> points to an
  instance. The field is a pointer: on a builder whose \<^verbatim>\<open>Instance\<close> is nil, \<^verbatim>\<open>Build\<close> panics
  when \<^verbatim>\<open>persistentVolumeClaim\<close> reads the namespace of the instance, and \<^verbatim>\<open>Update\<close> panics
  when it reads \<^verbatim>\<open>builder.Instance.Annotations\<close>, after the type assertion and after the read
  of the object's own annotations, before anything is written.
\<close>

record StatefulSetBuilder =
  Instance :: "RabbitmqCluster option"

definition StatefulSetBuilder_Build :: "deps \<Rightarrow> StatefulSetBuilder \<Rightarrow> error + RuntimeObject" where
  "StatefulSetBuilder_Build d builder =
     (case Instance builder of
        None \<Rightarrow> Inl PanicNilPointer
      | Some inst \<Rightarrow> Build d inst)"

definition StatefulSetBuilder_Update ::
    "deps \<Rightarrow> StatefulSetBuilder \<Rightarrow> RuntimeObject \<Rightarrow> RuntimeObject outcome" where
  "StatefulSetBuilder_Update d builder obj =
     (case obj of
        OtherObject kind \<Rightarrow> stopped PanicTypeAssertion obj
      | NilStatefulSetObject \<Rightarrow> stopped PanicNilPointer obj
      | StatefulSetObject sts \<Rightarrow>
          (case Instance builder of
             None \<Rightarrow> stopped PanicNilPointer obj
           | Some inst \<Rightarrow> Update d inst obj))"

section \<open>The pre-stop hook\<close>


record diagnostics =
  check_if_node_is_quorum_critical :: "nat \<Rightarrow> nat"
  check_if_node_is_mirror_sync_critical :: "nat \<Rightarrow> nat"

datatype hook_event = QuorumCheck nat | MirrorSyncCheck nat | Sleep nat

record hook_state =
  quorum_runs :: nat
  mirror_runs :: nat
  trace :: "hook_event list"




definition sleep :: "nat \<Rightarrow> hook_state \<Rightarrow> hook_state" where
  "sleep n s = s\<lparr>trace := trace s @ [Sleep n]\<rparr>"




section \<open>The environment the platform hands to the container\<close>

text \<open>
  The environment list of the pod template is a list of templates: the platform resolves it
  when it starts a container of a pod. A variable with a literal value has each reference
  \<^verbatim>\<open>$(NAME)\<close> to a variable defined earlier in the list replaced by that variable's value; a
  reference to an unknown name is left as it is, and \<^verbatim>\<open>$$\<close> stands for one \<^verbatim>\<open>$\<close>. A variable
  without a literal value that refers to a field of the pod receives that field.
\<close>

function expand :: "(string \<rightharpoonup> string) \<Rightarrow> string \<Rightarrow> string" where
  "expand env [] = []"
| "expand env (c # cs) =
     (if c \<noteq> CHR ''$'' then c # expand env cs
      else case cs of
             [] \<Rightarrow> [c]
           | n # rest \<Rightarrow>
               if n = CHR ''$'' then CHR ''$'' # expand env rest
               else if n = CHR ''('' then
                 (if CHR '')'' \<in> set rest
                  then (case env (takeWhile (\<lambda>x. x \<noteq> CHR '')'') rest) of
                          Some v \<Rightarrow> v
                        | None \<Rightarrow> ''$('' @ takeWhile (\<lambda>x. x \<noteq> CHR '')'') rest @ '')'')
                       @ expand env (tl (dropWhile (\<lambda>x. x \<noteq> CHR '')'') rest))
                  else CHR ''$'' # CHR ''('' # expand env rest)
               else CHR ''$'' # n # expand env rest)"
  by pat_completeness auto
termination
  apply (relation "measure (\<lambda>(env, s). length s)")
       apply auto
  subgoal for rest
    using length_dropWhile_le [of "\<lambda>x. x \<noteq> CHR '')''" rest] by arith
  done

record Pod =
  pod_Name :: string
  pod_Namespace :: string

definition fieldValue :: "Pod \<Rightarrow> string \<Rightarrow> string" where
  "fieldValue p path =
     (if path = ''metadata.name'' then pod_Name p
      else if path = ''metadata.namespace'' then pod_Namespace p
      else [])"

fun resolveEnv :: "Pod \<Rightarrow> (string \<rightharpoonup> string) \<Rightarrow> EnvVar list \<Rightarrow> (string \<rightharpoonup> string)" where
  "resolveEnv p env [] = env"
| "resolveEnv p env (v # vs) =
     resolveEnv p
       (env(ev_Name v \<mapsto>
          (if ev_Value v \<noteq> [] then expand env (ev_Value v)
           else case ev_ValueFrom v of
                  Some f \<Rightarrow> fieldValue p (fs_FieldPath f)
                | None \<Rightarrow> [])))
       vs"

section \<open>The kubectl plugin\<close>

text \<open>
  The plugin script addresses the objects of an instance by name.
  \<^verbatim>\<open>observe\<close> runs \<^verbatim>\<open>kubectl exec -it "${1}-rabbitmq-server-${2}"\<close>: the pod of the
  instance's StatefulSet with the given ordinal, a pod the platform names after the
  StatefulSet followed by a hyphen and the ordinal. \<^verbatim>\<open>get_instance_details\<close> reads the secret
  \<^verbatim>\<open>${instance}-rabbitmq-admin\<close> and sets the service to \<^verbatim>\<open>${instance}-rabbitmq-client\<close>.
\<close>

definition observe :: "string \<Rightarrow> string \<Rightarrow> string" where
  "observe instance ordinal = instance @ ''-rabbitmq-server-'' @ ordinal"

definition statefulSetPodName :: "string \<Rightarrow> string \<Rightarrow> string" where
  "statefulSetPodName workload ordinal = workload @ ''-'' @ ordinal"

definition get_instance_details_secret :: "string \<Rightarrow> string" where
  "get_instance_details_secret instance = instance @ ''-rabbitmq-admin''"

definition get_instance_details_service :: "string \<Rightarrow> string" where
  "get_instance_details_service instance = instance @ ''-rabbitmq-client''"

section \<open>Reference collaborators\<close>

text \<open>
  Modelled from the spec: the method \<^verbatim>\<open>ChildResourceName\<close> of the cluster type, which is not
  among the source files. Section 6 of the specification names a child object
  \<^verbatim>\<open><instance>-<component>-<suffix>\<close>; the component is \<^verbatim>\<open>rabbitmq\<close>, as in the names under
  which the kubectl plugin finds the objects.
\<close>

definition ChildResourceName_model :: "string \<Rightarrow> string \<Rightarrow> string" where
  "ChildResourceName_model name suffix = name @ ''-rabbitmq-'' @ suffix"

text \<open>
  Modelled from the spec: the metadata package's \<^verbatim>\<open>ReconcileAnnotations\<close>, which is not among
  the source files. Section 4.4: keys of the controller-managed set take the current desired
  value (and are removed when no longer desired); any other existing key is preserved
  untouched. The managed set is a parameter.
\<close>

definition ReconcileAnnotations_model ::
    "(string \<Rightarrow> bool) \<Rightarrow> StringMap \<Rightarrow> StringMap \<Rightarrow> StringMap" where
  "ReconcileAnnotations_model managed existing desired =
     (\<lambda>k. if managed k then desired k else existing k)"

text \<open>
  Modelled from the spec: the metadata package's \<^verbatim>\<open>Label\<close>, \<^verbatim>\<open>LabelSelector\<close> and
  \<^verbatim>\<open>GetLabels\<close>, which are not among the source files. The operator's label is the one the
  kubectl plugin selects the objects of an instance by, \<^verbatim>\<open>app.kubernetes.io/name\<close>; section 2
  has the operator-managed labels merged with the user-supplied ones.
\<close>

definition Label_model :: "string \<Rightarrow> StringMap" where
  "Label_model name = [''app.kubernetes.io/name'' \<mapsto> name]"

definition GetLabels_model :: "string \<Rightarrow> StringMap \<Rightarrow> StringMap" where
  "GetLabels_model name labels = labels ++ Label_model name"

text \<open>
  Modelled from the spec: the controller runtime's \<^verbatim>\<open>SetControllerReference\<close>, an external
  library. Sections 3 and 6: a child carries a single controller-owner reference back to
  its instance. Setting it fails when the object lies in another namespace than the owner or
  has another controller already; otherwise the owner's reference is added unless present.
\<close>

definition controllerReference :: "ObjectMeta \<Rightarrow> OwnerReference" where
  "controllerReference owner =
     \<lparr>or_APIVersion = ''rabbitmq.com/v1beta1'', or_Kind = ''RabbitmqCluster'',
      or_Name = om_Name owner, or_UID = om_UID owner,
      or_Controller = Some True, or_BlockOwnerDeletion = Some True\<rparr>"

definition SetControllerReference_model ::
    "ObjectMeta \<Rightarrow> string \<Rightarrow> OwnerReference list \<Rightarrow> setter_failure + OwnerReference list" where
  "SetControllerReference_model owner ns refs =
     (if ns \<noteq> om_Namespace owner
      then Inl (SetterError ''cross-namespace owner references are disallowed'')
      else case find (\<lambda>r. or_Controller r = Some True \<and> r \<noteq> controllerReference owner) refs of
             Some other \<Rightarrow> Inl (SetterError ''object is already owned by another controller'')
           | None \<Rightarrow>
               if controllerReference owner \<in> set refs then Inr refs
               else Inr (refs @ [controllerReference owner]))"

text \<open>
  A stand-in for the platform's \<^verbatim>\<open>ParseQuantity\<close>, an external library, on the inputs the
  builder gives it: an unsigned decimal number followed by a unit suffix.
\<close>

definition is_digit :: "char \<Rightarrow> bool" where
  "is_digit c = (48 \<le> (of_char c :: nat) \<and> (of_char c :: nat) \<le> 57)"

definition decimal :: "string \<Rightarrow> nat" where
  "decimal ds = foldl (\<lambda>n c. 10 * n + ((of_char c :: nat) - 48)) 0 ds"

definition suffix_milli :: "string \<Rightarrow> (int \<times> string) option" where
  "suffix_milli suffix =
     (if suffix = [] then Some (1000, ''DecimalSI'')
      else if suffix = ''m'' then Some (1, ''DecimalSI'')
      else if suffix = ''k'' then Some (1000 * 1000, ''DecimalSI'')
      else if suffix = ''M'' then Some (1000 * 1000000, ''DecimalSI'')
      else if suffix = ''G'' then Some (1000 * 1000000000, ''DecimalSI'')
      else if suffix = ''Ki'' then Some (1000 * 1024, ''BinarySI'')
      else if suffix = ''Mi'' then Some (1000 * 1048576, ''BinarySI'')
      else if suffix = ''Gi'' then Some (1000 * 1073741824, ''BinarySI'')
      else None)"

definition ParseQuantity_model :: "string \<Rightarrow> string + Quantity" where
  "ParseQuantity_model str =
     (if takeWhile is_digit str = [] then Inl ''quantities must match the regular expression''
      else case suffix_milli (dropWhile is_digit str) of
             None \<Rightarrow> Inl ''unable to parse quantity's suffix''
           | Some (scale, format) \<Rightarrow>
               Inr \<lparr>q_Milli = int (decimal (takeWhile is_digit str)) * scale,
                    q_Format = format\<rparr>)"

text \<open>
  Modelled from the spec: the name suffixes of the cluster type, which are not among the source
  files. The admin secret is the child \<^verbatim>\<open>admin\<close> (the kubectl plugin reads
  \<^verbatim>\<open><instance>-rabbitmq-admin\<close>); the headless service is the child \<^verbatim>\<open>headless\<close>, the name the
  pod template gives \<^verbatim>\<open>K8S_SERVICE_NAME\<close>; the others are named after what they hold.
\<close>

definition reference_deps :: "(string \<Rightarrow> bool) \<Rightarrow> deps" where
  "reference_deps managed =
     \<lparr>ChildResourceName = ChildResourceName_model,
      headlessServiceName = ''headless'',
      serviceAccountName = ''server'',
      adminSecretName = ''admin'',
      serverConfigMapName = ''server-conf'',
      erlangCookieName = ''erlang-cookie'',
      Label = Label_model,
      LabelSelector = Label_model,
      GetLabels = GetLabels_model,
      ReconcileAnnotations = ReconcileAnnotations_model managed,
      SetControllerReference = SetControllerReference_model,
      ParseQuantity = ParseQuantity_model\<rparr>"

section \<open>Notions used in the statements\<close>

text \<open>
  The object as \<^verbatim>\<open>Update\<close> has it after its first three assignments: both annotation maps
  reconciled and the pod template replaced.
\<close>

definition prepared :: "deps \<Rightarrow> RabbitmqCluster \<Rightarrow> StatefulSet \<Rightarrow> StatefulSet" where
  "prepared d inst sts =
     on_meta (\<lambda>m. m\<lparr>om_Annotations :=
         ReconcileAnnotations d (om_Annotations (sts_ObjectMeta sts)) (Annotations inst)\<rparr>)
       (on_template_meta (\<lambda>m. m\<lparr>om_Annotations :=
           ReconcileAnnotations d (om_Annotations (pt_ObjectMeta (ss_Template (sts_Spec sts))))
             (Annotations inst)\<rparr>)
         (on_template (\<lambda>_. podTemplateSpec d inst) sts))"

definition restamp ::
    "OwnerReference list \<Rightarrow> StringMap \<Rightarrow> int option \<Rightarrow> StatefulSet \<Rightarrow> StatefulSet" where
  "restamp refs labels n sts =
     on_spec (\<lambda>s. s\<lparr>ss_Replicas := n\<rparr>)
       (on_meta (\<lambda>m. m\<lparr>om_OwnerReferences := refs, om_Labels := labels\<rparr>) sts)"

text \<open>
  The object a successful \<^verbatim>\<open>setStatefulSetParams\<close> leaves behind, written as one chain of
  assignments.
\<close>

definition configured ::
    "deps \<Rightarrow> RabbitmqCluster \<Rightarrow> OwnerReference list \<Rightarrow> Quantity \<Rightarrow> Quantity \<Rightarrow>
     ResourceRequirements \<Rightarrow> StatefulSet \<Rightarrow> StatefulSet" where
  "configured d inst refs cpuRequest memoryRequest resources sts =
     on_pod (\<lambda>p. p\<lparr>ps_ImagePullSecrets :=
                     (if spec_ImagePullSecret (rc_Spec inst) \<noteq> []
                      then [spec_ImagePullSecret (rc_Spec inst)] else []),
                   ps_Affinity := spec_Affinity (rc_Spec inst),
                   ps_Tolerations := spec_Tolerations (rc_Spec inst)\<rparr>)
    (on_container0 (\<lambda>c. c\<lparr>c_Resources := resources, c_Image := spec_Image (rc_Spec inst)\<rparr>)
    (on_initContainer0 (\<lambda>c. c\<lparr>c_Resources :=
                     \<lparr>rr_Limits = [''cpu'' \<mapsto> cpuRequest, ''memory'' \<mapsto> memoryRequest],
                      rr_Requests = [''cpu'' \<mapsto> cpuRequest, ''memory'' \<mapsto> memoryRequest]\<rparr>,
                   c_Image := spec_Image (rc_Spec inst)\<rparr>)
    (on_spec (\<lambda>s. s\<lparr>ss_Replicas := Some (spec_Replicas (rc_Spec inst))\<rparr>)
    (on_template_meta (\<lambda>m. m\<lparr>om_Labels := GetLabels d (Name inst) (Labels inst)\<rparr>)
    (on_meta (\<lambda>m. m\<lparr>om_OwnerReferences := refs,
                      om_Labels := GetLabels d (Name inst) (Labels inst)\<rparr>) sts)))))"

text \<open>
  What the statements ask of the collaborators. Reconciling annotations a second time against
  the same instance changes nothing; setting the controller reference on the owner references
  it has just answered answers them again; and an annotation key is unmanaged for an instance
  when reconciling leaves its entry as it was.
\<close>

definition annotations_settle :: "deps \<Rightarrow> RabbitmqCluster \<Rightarrow> bool" where
  "annotations_settle d inst =
     (\<forall>a. ReconcileAnnotations d (ReconcileAnnotations d a (Annotations inst)) (Annotations inst)
            = ReconcileAnnotations d a (Annotations inst))"

definition owner_settles :: "deps \<Rightarrow> RabbitmqCluster \<Rightarrow> bool" where
  "owner_settles d inst =
     (\<forall>ns refs r. SetControllerReference d (rc_ObjectMeta inst) ns refs = Inr r
         \<longrightarrow> SetControllerReference d (rc_ObjectMeta inst) ns r = Inr r)"

definition unmanaged :: "deps \<Rightarrow> RabbitmqCluster \<Rightarrow> string \<Rightarrow> bool" where
  "unmanaged d inst key = (\<forall>a. ReconcileAnnotations d a (Annotations inst) key = a key)"

text \<open>How a call that answers a value or an error ended.\<close>

definition failed :: "error + 'a \<Rightarrow> error option" where
  "failed r = (case r of Inl err \<Rightarrow> Some err | Inr v \<Rightarrow> None)"

text \<open>The same instance with other resource requirements.\<close>

definition with_resources :: "ResourceRequirements \<Rightarrow> RabbitmqCluster \<Rightarrow> RabbitmqCluster" where
  "with_resources r inst = inst\<lparr>rc_Spec := (rc_Spec inst)\<lparr>spec_Resources := Some r\<rparr>\<rparr>"

text \<open>The same instance with another replica count.\<close>

definition with_replicas :: "int \<Rightarrow> RabbitmqCluster \<Rightarrow> RabbitmqCluster" where
  "with_replicas m inst = inst\<lparr>rc_Spec := (rc_Spec inst)\<lparr>spec_Replicas := m\<rparr>\<rparr>"

text \<open>
  The StatefulSet an object holds, and the StatefulSet \<^verbatim>\<open>Update\<close> leaves behind when it is
  called on one, whatever its outcome.
\<close>

definition statefulSetOf :: "RuntimeObject \<Rightarrow> StatefulSet option" where
  "statefulSetOf obj =
     (case obj of
        StatefulSetObject sts \<Rightarrow> Some sts
      | NilStatefulSetObject \<Rightarrow> None
      | OtherObject kind \<Rightarrow> None)"

definition updated :: "deps \<Rightarrow> RabbitmqCluster \<Rightarrow> StatefulSet \<Rightarrow> StatefulSet" where
  "updated d inst sts =
     (case object (Update d inst (StatefulSetObject sts)) of
        StatefulSetObject sts' \<Rightarrow> sts'
      | NilStatefulSetObject \<Rightarrow> sts
      | OtherObject kind \<Rightarrow> sts)"

definition panicked :: "error option \<Rightarrow> bool" where
  "panicked e = (case e of None \<Rightarrow> False | Some err \<Rightarrow> is_panic err)"

text \<open>A reconcile of an instance whose StatefulSet does not exist yet: Build, then Update.\<close>

definition BuildThenUpdate :: "deps \<Rightarrow> RabbitmqCluster \<Rightarrow> error + RuntimeObject outcome" where
  "BuildThenUpdate d inst =
     (case Build d inst of
        Inl err \<Rightarrow> Inl err
      | Inr obj \<Rightarrow> Inr (Update d inst obj))"

text \<open>
  The instance of the end-to-end scenario, \<^verbatim>\<open>{instance: "my-cluster", replicas: 3, image:
  "broker:3.8.9"}\<close>, with the fields the scenario leaves out filled in: a namespace, equal
  memory request and limit, and a storage size. \<open>my_cluster_overcommitted\<close> is the same
  instance with a memory limit below the memory request.
\<close>

definition gibi :: "int \<Rightarrow> Quantity" where
  "gibi n = \<lparr>q_Milli = 1000 * 1073741824 * n, q_Format = ''BinarySI''\<rparr>"

definition my_cluster :: RabbitmqCluster where
  "my_cluster =
     \<lparr>rc_ObjectMeta =
        zero_ObjectMeta
          \<lparr>om_Name := ''my-cluster'', om_Namespace := ''default'', om_UID := ''c0ffee''\<rparr>,
      rc_Spec =
        \<lparr>spec_Replicas = 3,
         spec_Image = ''broker:3.8.9'',
         spec_ImagePullSecret = [],
         spec_Resources =
           Some \<lparr>rr_Limits = [''memory'' \<mapsto> gibi 2], rr_Requests = [''memory'' \<mapsto> gibi 2]\<rparr>,
         spec_Persistence = \<lparr>p_StorageClassName = None, p_Storage = Some (gibi 10)\<rparr>,
         spec_Affinity = None,
         spec_Tolerations = []\<rparr>\<rparr>"


text \<open>The scenario's instance as written, with no resources, and with no storage size.\<close>

definition my_cluster_without_resources :: RabbitmqCluster where
  "my_cluster_without_resources =
     my_cluster\<lparr>rc_Spec := (rc_Spec my_cluster)\<lparr>spec_Resources := None\<rparr>\<rparr>"

definition my_cluster_without_storage :: RabbitmqCluster where
  "my_cluster_without_storage =
     my_cluster
       \<lparr>rc_Spec := (rc_Spec my_cluster)
          \<lparr>spec_Persistence := \<lparr>p_StorageClassName = None, p_Storage = None\<rparr>\<rparr>\<rparr>"

text \<open>
  A StatefulSet as it may be found on the platform: identifiers and a timestamp assigned, one
  replica, and an annotation added by someone else on the object and on its pod template.
\<close>

definition live_statefulSet :: StatefulSet where
  "live_statefulSet =
     \<lparr>sts_ObjectMeta =
        zero_ObjectMeta
          \<lparr>om_Name := ''my-cluster-rabbitmq-server'',
           om_Namespace := ''default'',
           om_UID := ''7f3c'',
           om_ResourceVersion := ''41'',
           om_CreationTimestamp := ''2020-03-01T00:00:00Z'',
           om_Annotations := [''team'' \<mapsto> ''payments'']\<rparr>,
      sts_Spec =
        \<lparr>ss_Replicas = Some 1,
         ss_ServiceName = ''my-cluster-rabbitmq-headless'',
         ss_Selector = Some \<lparr>ls_MatchLabels = [''app.kubernetes.io/name'' \<mapsto> ''my-cluster'']\<rparr>,
         ss_VolumeClaimTemplates = [],
         ss_Template =
           zero_PodTemplateSpec
             \<lparr>pt_ObjectMeta := zero_ObjectMeta\<lparr>om_Annotations := [''sidecar'' \<mapsto> ''on'']\<rparr>\<rparr>\<rparr>\<rparr>"

text \<open>
  The same StatefulSet with a label added by someone else on the object and on its pod
  template, and the same StatefulSet when another controller owns it.
\<close>

definition labelled_statefulSet :: StatefulSet where
  "labelled_statefulSet =
     on_template_meta (\<lambda>m. m\<lparr>om_Labels := [''foreign'' \<mapsto> ''x'']\<rparr>)
       (on_meta (\<lambda>m. m\<lparr>om_Labels := [''foreign'' \<mapsto> ''x'']\<rparr>) live_statefulSet)"

definition owned_statefulSet :: StatefulSet where
  "owned_statefulSet =
     on_meta (\<lambda>m. m\<lparr>om_OwnerReferences :=
         [\<lparr>or_APIVersion = ''apps/v1'', or_Kind = ''Deployment'', or_Name = ''other'',
           or_UID = ''d00d'', or_Controller = Some True, or_BlockOwnerDeletion = Some True\<rparr>]\<rparr>)
       live_statefulSet"

text \<open>Reference collaborators whose managed annotation set has one key.\<close>

definition example_managed :: "string \<Rightarrow> bool" where
  "example_managed key = (key = ''rabbitmq.com/managed'')"

definition example_deps :: deps where
  "example_deps = reference_deps example_managed"

text \<open>The same collaborators for a builder whose \<^verbatim>\<open>Scheme\<close> is nil: the setter panics.\<close>

definition nil_scheme_deps :: deps where
  "nil_scheme_deps = example_deps\<lparr>SetControllerReference := (\<lambda>owner ns refs. Inl SetterPanic)\<rparr>"

text \<open>
  The StatefulSet a reconcile ends with, when neither Build nor Update failed, and the name
  it carries.
\<close>

definition reconciled :: "error + RuntimeObject outcome \<Rightarrow> StatefulSet option" where
  "reconciled r =
     (case r of
        Inl err \<Rightarrow> None
      | Inr out \<Rightarrow> (case failure out of Some err \<Rightarrow> None | None \<Rightarrow> statefulSetOf (object out)))"

definition workloadName :: "error + RuntimeObject outcome \<Rightarrow> string option" where
  "workloadName r =
     (case reconciled r of None \<Rightarrow> None | Some sts \<Rightarrow> Some (om_Name (sts_ObjectMeta sts)))"

definition claimSummary ::
    "PersistentVolumeClaim \<Rightarrow> string \<times> PersistentVolumeAccessMode list" where
  "claimSummary pvc = (om_Name (pvc_ObjectMeta pvc), pvcs_AccessModes (pvc_Spec pvc))"

definition containerPorts :: "Container \<Rightarrow> int list" where
  "containerPorts c = map cp_ContainerPort (c_Ports c)"


section \<open>The pre-stop hook: proofs\<close>






lemma template_Containers [simp]:
  "ps_Containers (pt_Spec (podTemplateSpec d inst)) = [rabbitmqContainer d inst]"
  by (simp add: podTemplateSpec_def zero_PodSpec_def Let_def)

lemma template_InitContainers [simp]:
  "ps_InitContainers (pt_Spec (podTemplateSpec d inst)) = [initContainer]"
  by (simp add: podTemplateSpec_def zero_PodSpec_def Let_def)

lemma template_ObjectMeta [simp]:
  "pt_ObjectMeta (podTemplateSpec d inst) = zero_ObjectMeta"
  by (simp add: podTemplateSpec_def Let_def)


section \<open>Update: what it writes and what it leaves\<close>

lemmas on_defs = on_meta_def on_spec_def on_template_def on_template_meta_def on_pod_def pod_def
  on_initContainer0_def on_container0_def

lemma set0_set0: "set0 f (set0 g xs) = set0 (\<lambda>x. f (g x)) xs"
  by (cases xs) (simp_all add: set0_def)

lemma set0_Nil_iff [simp]: "set0 f xs = [] \<longleftrightarrow> xs = []"
  by (cases xs) (simp_all add: set0_def)

lemma set0_single [simp]: "set0 f [x] = [f x]"
  by (simp add: set0_def)

lemma updated_eq:
  "updated d inst sts = object (setStatefulSetParams d inst (prepared d inst sts))"
  by (simp add: updated_def Update_def prepared_def Let_def)

lemma Update_sts:
  "Update d inst (StatefulSetObject sts) =
     \<lparr>failure = failure (setStatefulSetParams d inst (prepared d inst sts)),
      object = StatefulSetObject (updated d inst sts),
      logged = logged (setStatefulSetParams d inst (prepared d inst sts))\<rparr>"
  by (simp add: updated_eq) (simp add: Update_def prepared_def Let_def)

lemma Update_other:
  "Update d inst (OtherObject kind) =
     \<lparr>failure = Some PanicTypeAssertion, object = OtherObject kind, logged = []\<rparr>"
  by (simp add: Update_def stopped_def)

lemma Update_nil:
  "Update d inst NilStatefulSetObject =
     \<lparr>failure = Some PanicNilPointer, object = NilStatefulSetObject, logged = []\<rparr>"
  by (simp add: Update_def stopped_def)

lemma prepared_frame [simp]:
  "om_Name (sts_ObjectMeta (prepared d inst sts)) = om_Name (sts_ObjectMeta sts)"
  "om_Namespace (sts_ObjectMeta (prepared d inst sts)) = om_Namespace (sts_ObjectMeta sts)"
  "om_UID (sts_ObjectMeta (prepared d inst sts)) = om_UID (sts_ObjectMeta sts)"
  "om_ResourceVersion (sts_ObjectMeta (prepared d inst sts)) = om_ResourceVersion (sts_ObjectMeta sts)"
  "om_CreationTimestamp (sts_ObjectMeta (prepared d inst sts)) = om_CreationTimestamp (sts_ObjectMeta sts)"
  "om_OwnerReferences (sts_ObjectMeta (prepared d inst sts)) = om_OwnerReferences (sts_ObjectMeta sts)"
  "om_Annotations (sts_ObjectMeta (prepared d inst sts))
     = ReconcileAnnotations d (om_Annotations (sts_ObjectMeta sts)) (Annotations inst)"
  "ss_ServiceName (sts_Spec (prepared d inst sts)) = ss_ServiceName (sts_Spec sts)"
  "ss_Selector (sts_Spec (prepared d inst sts)) = ss_Selector (sts_Spec sts)"
  "ss_VolumeClaimTemplates (sts_Spec (prepared d inst sts)) = ss_VolumeClaimTemplates (sts_Spec sts)"
  "om_Annotations (pt_ObjectMeta (ss_Template (sts_Spec (prepared d inst sts))))
     = ReconcileAnnotations d (om_Annotations (pt_ObjectMeta (ss_Template (sts_Spec sts))))
         (Annotations inst)"
  "pod (prepared d inst sts) = pt_Spec (podTemplateSpec d inst)"
  by (simp_all add: prepared_def on_defs)

lemma params_frame:
  "om_Name (sts_ObjectMeta (object (setStatefulSetParams d inst sts))) = om_Name (sts_ObjectMeta sts)"
  "om_Namespace (sts_ObjectMeta (object (setStatefulSetParams d inst sts))) = om_Namespace (sts_ObjectMeta sts)"
  "om_UID (sts_ObjectMeta (object (setStatefulSetParams d inst sts))) = om_UID (sts_ObjectMeta sts)"
  "om_ResourceVersion (sts_ObjectMeta (object (setStatefulSetParams d inst sts))) = om_ResourceVersion (sts_ObjectMeta sts)"
  "om_CreationTimestamp (sts_ObjectMeta (object (setStatefulSetParams d inst sts))) = om_CreationTimestamp (sts_ObjectMeta sts)"
  "om_Annotations (sts_ObjectMeta (object (setStatefulSetParams d inst sts))) = om_Annotations (sts_ObjectMeta sts)"
  "ss_ServiceName (sts_Spec (object (setStatefulSetParams d inst sts))) = ss_ServiceName (sts_Spec sts)"
  "ss_Selector (sts_Spec (object (setStatefulSetParams d inst sts))) = ss_Selector (sts_Spec sts)"
  "ss_VolumeClaimTemplates (sts_Spec (object (setStatefulSetParams d inst sts))) = ss_VolumeClaimTemplates (sts_Spec sts)"
  "om_Annotations (pt_ObjectMeta (ss_Template (sts_Spec (object (setStatefulSetParams d inst sts)))))
     = om_Annotations (pt_ObjectMeta (ss_Template (sts_Spec sts)))"
  "map c_Env (ps_Containers (pod (object (setStatefulSetParams d inst sts)))) = map c_Env (ps_Containers (pod sts))"
  "map c_Ports (ps_Containers (pod (object (setStatefulSetParams d inst sts)))) = map c_Ports (ps_Containers (pod sts))"
  "map c_Lifecycle (ps_Containers (pod (object (setStatefulSetParams d inst sts)))) = map c_Lifecycle (ps_Containers (pod sts))"
  "ps_TerminationGracePeriodSeconds (pod (object (setStatefulSetParams d inst sts))) = ps_TerminationGracePeriodSeconds (pod sts)"
  by (simp_all add: setStatefulSetParams_def Let_def on_defs stopped_def set0_def
        split: sum.splits option.splits list.splits)

lemma params_failure:
  "failure (setStatefulSetParams d inst sts) =
     (case SetControllerReference d (rc_ObjectMeta inst)
             (om_Namespace (sts_ObjectMeta sts)) (om_OwnerReferences (sts_ObjectMeta sts)) of
        Inl err \<Rightarrow> Some (setterError err)
      | Inr refs \<Rightarrow>
          (case ParseQuantity d initContainerCPU of
             Inl err \<Rightarrow> Some (QuantityError err)
           | Inr cpuRequest \<Rightarrow>
               (case ParseQuantity d initContainerMemory of
                  Inl err \<Rightarrow> Some (QuantityError err)
                | Inr memoryRequest \<Rightarrow>
                    if ps_InitContainers (pod sts) = [] then Some PanicIndexOutOfRange
                    else case spec_Resources (rc_Spec inst) of
                           None \<Rightarrow> Some PanicNilPointer
                         | Some resources \<Rightarrow>
                             if ps_Containers (pod sts) = [] then Some PanicIndexOutOfRange
                             else None)))"
  by (simp add: setStatefulSetParams_def Let_def on_defs stopped_def split: sum.splits option.splits)

lemma params_ok:
  assumes "SetControllerReference d (rc_ObjectMeta inst)
             (om_Namespace (sts_ObjectMeta sts)) (om_OwnerReferences (sts_ObjectMeta sts)) = Inr refs"
    and "ParseQuantity d initContainerCPU = Inr cpuRequest"
    and "ParseQuantity d initContainerMemory = Inr memoryRequest"
    and "spec_Resources (rc_Spec inst) = Some resources"
    and "ps_InitContainers (pod sts) \<noteq> []"
    and "ps_Containers (pod sts) \<noteq> []"
  shows "setStatefulSetParams d inst sts =
     \<lparr>failure = None,
      object = configured d inst refs cpuRequest memoryRequest resources sts,
      logged = (if \<not> Quantity_Equal (Memory (rr_Limits resources)) (Memory (rr_Requests resources))
                then [memoryWarning (om_Name (sts_ObjectMeta sts))] else [])\<rparr>"
  using assms
  by (simp add: setStatefulSetParams_def Let_def on_defs configured_def set0_set0)

lemma params_success_cases:
  assumes "failure (setStatefulSetParams d inst sts) = None"
  obtains refs cpuRequest memoryRequest resources where
    "SetControllerReference d (rc_ObjectMeta inst)
             (om_Namespace (sts_ObjectMeta sts)) (om_OwnerReferences (sts_ObjectMeta sts)) = Inr refs"
    "ParseQuantity d initContainerCPU = Inr cpuRequest"
    "ParseQuantity d initContainerMemory = Inr memoryRequest"
    "spec_Resources (rc_Spec inst) = Some resources"
    "ps_InitContainers (pod sts) \<noteq> []"
    "ps_Containers (pod sts) \<noteq> []"
  using assms unfolding params_failure
  by (auto split: sum.splits option.splits if_splits)

lemma params_restamp:
  assumes "SetControllerReference d (rc_ObjectMeta inst) (om_Namespace (sts_ObjectMeta sts)) refs
             = Inr r"
    and "SetControllerReference d (rc_ObjectMeta inst) (om_Namespace (sts_ObjectMeta sts))
             (om_OwnerReferences (sts_ObjectMeta sts)) = Inr r"
  shows "setStatefulSetParams d inst (restamp refs labels n sts) = setStatefulSetParams d inst sts"
  using assms
  by (simp add: setStatefulSetParams_def restamp_def Let_def on_defs stopped_def comp_def
           split: sum.splits option.splits)

lemma prepared_after:
  assumes "annotations_settle d inst"
  shows "prepared d inst (object (setStatefulSetParams d inst (prepared d inst sts))) =
     (case SetControllerReference d (rc_ObjectMeta inst) (om_Namespace (sts_ObjectMeta sts))
             (om_OwnerReferences (sts_ObjectMeta sts)) of
        Inl e \<Rightarrow> prepared d inst sts
      | Inr refs \<Rightarrow> restamp refs (GetLabels d (Name inst) (Labels inst))
                      (Some (spec_Replicas (rc_Spec inst))) (prepared d inst sts))"
  using assms
  by (simp add: setStatefulSetParams_def prepared_def restamp_def Let_def on_defs stopped_def
        annotations_settle_def comp_def split: sum.splits option.splits)

lemma updated_idem:
  assumes ra: "annotations_settle d inst" and scr: "owner_settles d inst"
  shows "setStatefulSetParams d inst (prepared d inst (updated d inst sts))
           = setStatefulSetParams d inst (prepared d inst sts)"
proof (cases "SetControllerReference d (rc_ObjectMeta inst) (om_Namespace (sts_ObjectMeta sts))
             (om_OwnerReferences (sts_ObjectMeta sts))")
  case (Inl e)
  then show ?thesis by (simp add: updated_eq prepared_after[OF ra])
next
  case (Inr refs)
  let ?P = "prepared d inst sts"
  have 1: "SetControllerReference d (rc_ObjectMeta inst) (om_Namespace (sts_ObjectMeta ?P)) refs
             = Inr refs"
    using scr Inr by (simp add: owner_settles_def)
  have 2: "SetControllerReference d (rc_ObjectMeta inst) (om_Namespace (sts_ObjectMeta ?P))
               (om_OwnerReferences (sts_ObjectMeta ?P)) = Inr refs"
    using Inr by simp
  show ?thesis
    by (simp add: updated_eq prepared_after[OF ra] Inr params_restamp[OF 1 2])
qed

lemma Update_twice:
  assumes "annotations_settle d inst" and "owner_settles d inst"
  shows "Update d inst (object (Update d inst obj)) = Update d inst obj"
proof (cases obj)
  case (StatefulSetObject sts)
  with updated_idem[OF assms, of sts] show ?thesis
    by (simp add: Update_sts updated_eq)
next
  case (OtherObject kind)
  then show ?thesis by (simp add: Update_other)
next
  case NilStatefulSetObject
  then show ?thesis by (simp add: Update_nil)
qed


lemma params_replicas:
  assumes "failure (setStatefulSetParams d inst sts) = None"
  shows "setStatefulSetParams d (with_replicas m inst) sts =
     \<lparr>failure = None,
      object = on_spec (\<lambda>s. s\<lparr>ss_Replicas := Some m\<rparr>) (object (setStatefulSetParams d inst sts)),
      logged = logged (setStatefulSetParams d inst sts)\<rparr>"
proof -
  from assms obtain refs cpuRequest memoryRequest resources where c:
    "SetControllerReference d (rc_ObjectMeta inst)
             (om_Namespace (sts_ObjectMeta sts)) (om_OwnerReferences (sts_ObjectMeta sts)) = Inr refs"
    "ParseQuantity d initContainerCPU = Inr cpuRequest"
    "ParseQuantity d initContainerMemory = Inr memoryRequest"
    "spec_Resources (rc_Spec inst) = Some resources"
    "ps_InitContainers (pod sts) \<noteq> []"
    "ps_Containers (pod sts) \<noteq> []"
    by (rule params_success_cases)
  have c': "SetControllerReference d (rc_ObjectMeta (with_replicas m inst))
             (om_Namespace (sts_ObjectMeta sts)) (om_OwnerReferences (sts_ObjectMeta sts)) = Inr refs"
    "spec_Resources (rc_Spec (with_replicas m inst)) = Some resources"
    using c by (simp_all add: with_replicas_def)
  show ?thesis
    unfolding params_ok[OF c] params_ok[OF c'(1) c(2) c(3) c'(2) c(5) c(6)]
    by (simp add: configured_def with_replicas_def on_defs Name_def Labels_def comp_def)
qed

lemma prepared_with_replicas:
  "prepared d (with_replicas m inst) sts = prepared d inst sts"
  by (simp add: prepared_def with_replicas_def Annotations_def podTemplateSpec_def Name_def
        rabbitmqContainer_def rabbitmqEnv_def podVolumes_def)


lemma find_append_None:
  "find P (xs @ ys) = (case find P xs of None \<Rightarrow> find P ys | Some x \<Rightarrow> Some x)"
  by (induction xs) auto

lemma model_annotations_settle: "annotations_settle (reference_deps managed) inst"
  by (simp add: annotations_settle_def reference_deps_def ReconcileAnnotations_model_def fun_eq_iff)

lemma model_owner_settles: "owner_settles (reference_deps managed) inst"
  by (auto simp: owner_settles_def reference_deps_def SetControllerReference_model_def
        find_append_None split: if_splits option.splits)

lemma parse_100m: "ParseQuantity_model ''100m'' = Inr \<lparr>q_Milli = 100, q_Format = ''DecimalSI''\<rparr>"
  by (simp add: ParseQuantity_model_def is_digit_def decimal_def suffix_milli_def)

lemma parse_500Mi:
  "ParseQuantity_model ''500Mi'' = Inr \<lparr>q_Milli = 524288000000, q_Format = ''BinarySI''\<rparr>"
  by (simp add: ParseQuantity_model_def is_digit_def decimal_def suffix_milli_def)

lemma example_success:
  "failure (Update example_deps my_cluster (StatefulSetObject live_statefulSet)) = None"
  by (simp add: Update_sts params_failure example_deps_def reference_deps_def
        initContainerCPU_def initContainerMemory_def parse_100m parse_500Mi
        SetControllerReference_model_def my_cluster_def live_statefulSet_def zero_ObjectMeta_def)

lemma example_Build:
  "Build example_deps my_cluster = Inr (projr (Build example_deps my_cluster))"
  by (simp add: Build_def statefulSet_def persistentVolumeClaim_def example_deps_def
        reference_deps_def SetControllerReference_model_def my_cluster_def zero_ObjectMeta_def
        Namespace_def Let_def)

text \<open>
  C1. Update is idempotent. Provided the annotation reconciler and the owner-reference setter
  are themselves idempotent for the instance, a second Update with the unchanged instance, on
  the object the first Update left behind, ends in the same way, leaves the same object and
  logs the same lines as the first; this holds for every object, and so for the object Build
  has just produced.
\<close>

theorem Update_idempotent:
  assumes "annotations_settle d inst" and "owner_settles d inst"
  shows "Update d inst (object (Update d inst obj)) = Update d inst obj \<and>
         (\<forall>built. Build d inst = Inr built \<longrightarrow>
            Update d inst (object (Update d inst built)) = Update d inst built)"
  using Update_twice[OF assms] by simp

theorem Update_idempotent_witness:
  "Update example_deps my_cluster
     (object (Update example_deps my_cluster (StatefulSetObject live_statefulSet)))
     = Update example_deps my_cluster (StatefulSetObject live_statefulSet) \<and>
   failure (Update example_deps my_cluster (StatefulSetObject live_statefulSet)) = None \<and>
   Build example_deps my_cluster = Inr (projr (Build example_deps my_cluster)) \<and>
   Update example_deps my_cluster
     (object (Update example_deps my_cluster (projr (Build example_deps my_cluster))))
     = Update example_deps my_cluster (projr (Build example_deps my_cluster))"
  using Update_idempotent [OF model_annotations_settle model_owner_settles,
      of example_managed my_cluster "StatefulSetObject live_statefulSet"]
    example_success example_Build
  by (simp add: example_deps_def)

lemma updated_frame:
  "om_Name (sts_ObjectMeta (updated d inst sts)) = om_Name (sts_ObjectMeta sts)"
  "om_Namespace (sts_ObjectMeta (updated d inst sts)) = om_Namespace (sts_ObjectMeta sts)"
  "om_UID (sts_ObjectMeta (updated d inst sts)) = om_UID (sts_ObjectMeta sts)"
  "om_ResourceVersion (sts_ObjectMeta (updated d inst sts)) = om_ResourceVersion (sts_ObjectMeta sts)"
  "om_CreationTimestamp (sts_ObjectMeta (updated d inst sts)) = om_CreationTimestamp (sts_ObjectMeta sts)"
  "ss_ServiceName (sts_Spec (updated d inst sts)) = ss_ServiceName (sts_Spec sts)"
  "ss_Selector (sts_Spec (updated d inst sts)) = ss_Selector (sts_Spec sts)"
  "ss_VolumeClaimTemplates (sts_Spec (updated d inst sts)) = ss_VolumeClaimTemplates (sts_Spec sts)"
  "om_Annotations (sts_ObjectMeta (updated d inst sts))
     = ReconcileAnnotations d (om_Annotations (sts_ObjectMeta sts)) (Annotations inst)"
  "om_Annotations (pt_ObjectMeta (ss_Template (sts_Spec (updated d inst sts))))
     = ReconcileAnnotations d (om_Annotations (pt_ObjectMeta (ss_Template (sts_Spec sts))))
         (Annotations inst)"
  by (simp_all add: updated_eq params_frame)

lemma updated_differs_only:
  "updated d inst sts =
     sts\<lparr>sts_ObjectMeta :=
           (sts_ObjectMeta sts)
             \<lparr>om_Labels := om_Labels (sts_ObjectMeta (updated d inst sts)),
              om_Annotations := om_Annotations (sts_ObjectMeta (updated d inst sts)),
              om_OwnerReferences := om_OwnerReferences (sts_ObjectMeta (updated d inst sts))\<rparr>,
         sts_Spec :=
           (sts_Spec sts)
             \<lparr>ss_Replicas := ss_Replicas (sts_Spec (updated d inst sts)),
              ss_Template := ss_Template (sts_Spec (updated d inst sts))\<rparr>\<rparr>"
  by (simp add: updated_frame StatefulSet.equality StatefulSetSpec.equality ObjectMeta.equality)

lemma Update_replicas_only:
  assumes ra: "annotations_settle d inst" and scr: "owner_settles d inst"
    and ok: "failure (Update d inst (StatefulSetObject sts)) = None"
  shows "Update d (with_replicas m inst) (object (Update d inst (StatefulSetObject sts))) =
           \<lparr>failure = None,
            object = StatefulSetObject
                       (on_spec (\<lambda>s. s\<lparr>ss_Replicas := Some m\<rparr>) (updated d inst sts)),
            logged = logged (Update d inst (StatefulSetObject sts))\<rparr>"
proof -
  let ?U = "updated d inst sts"
  have same: "setStatefulSetParams d inst (prepared d inst ?U)
                = setStatefulSetParams d inst (prepared d inst sts)"
    by (rule updated_idem[OF ra scr])
  from ok have "failure (setStatefulSetParams d inst (prepared d inst ?U)) = None"
    by (simp add: Update_sts same)
  from params_replicas[OF this, of m] show ?thesis
    by (simp add: Update_sts prepared_with_replicas same[unfolded updated_eq] updated_eq)
qed


lemma Update_failure:
  "failure (Update d inst (StatefulSetObject sts)) =
     (case SetControllerReference d (rc_ObjectMeta inst)
             (om_Namespace (sts_ObjectMeta sts)) (om_OwnerReferences (sts_ObjectMeta sts)) of
        Inl err \<Rightarrow> Some (setterError err)
      | Inr refs \<Rightarrow>
          (case ParseQuantity d initContainerCPU of
             Inl err \<Rightarrow> Some (QuantityError err)
           | Inr cpuRequest \<Rightarrow>
               (case ParseQuantity d initContainerMemory of
                  Inl err \<Rightarrow> Some (QuantityError err)
                | Inr memoryRequest \<Rightarrow>
                    (case spec_Resources (rc_Spec inst) of
                       None \<Rightarrow> Some PanicNilPointer
                     | Some resources \<Rightarrow> None))))"
  by (simp add: Update_sts params_failure)


lemma params_init_resources:
  assumes "SetControllerReference d (rc_ObjectMeta inst)
             (om_Namespace (sts_ObjectMeta sts)) (om_OwnerReferences (sts_ObjectMeta sts)) = Inr refs"
    and "ParseQuantity d initContainerCPU = Inr cpuRequest"
    and "ParseQuantity d initContainerMemory = Inr memoryRequest"
    and "ps_InitContainers (pod sts) = [ic]"
    and "ps_Containers (pod sts) = [c]"
  shows "map c_Resources (ps_InitContainers (pod (object (setStatefulSetParams d inst sts)))) =
           [\<lparr>rr_Limits = [''cpu'' \<mapsto> cpuRequest, ''memory'' \<mapsto> memoryRequest],
             rr_Requests = [''cpu'' \<mapsto> cpuRequest, ''memory'' \<mapsto> memoryRequest]\<rparr>]"
    and "spec_Resources (rc_Spec inst) = Some resources \<Longrightarrow>
         map c_Resources (ps_Containers (pod (object (setStatefulSetParams d inst sts)))) = [resources]"
  using assms
  by (simp_all add: setStatefulSetParams_def Let_def on_defs stopped_def
           split: option.splits)


lemma example_setter:
  "SetControllerReference example_deps (rc_ObjectMeta my_cluster) ''default'' []
     = Inr [controllerReference (rc_ObjectMeta my_cluster)]"
  by (simp add: example_deps_def reference_deps_def SetControllerReference_model_def
        my_cluster_def zero_ObjectMeta_def)

lemma example_parse:
  "ParseQuantity example_deps initContainerCPU = Inr \<lparr>q_Milli = 100, q_Format = ''DecimalSI''\<rparr>"
  "ParseQuantity example_deps initContainerMemory
     = Inr \<lparr>q_Milli = 524288000000, q_Format = ''BinarySI''\<rparr>"
  by (simp_all add: example_deps_def reference_deps_def initContainerCPU_def
        initContainerMemory_def parse_100m parse_500Mi)

lemma live_meta:
  "om_Namespace (sts_ObjectMeta live_statefulSet) = ''default''"
  "om_OwnerReferences (sts_ObjectMeta live_statefulSet) = []"
  "om_Name (sts_ObjectMeta live_statefulSet) = ''my-cluster-rabbitmq-server''"
  by (simp_all add: live_statefulSet_def zero_ObjectMeta_def)

text \<open>
  C2. Update never writes the identity-bearing fields. Whatever the instance and whatever the
  StatefulSet it is given, also when it stops with an error or a panic, the object Update
  leaves has the service name, the selector and the volume claim templates it had before; an
  object of another kind is left as it was. When, after a successful Update, only the replica
  count of the instance changes, the next Update succeeds, logs the same lines and leaves the
  object of the first Update with the replica field set to the new count and nothing else
  changed (given idempotent annotation reconciling and owner-reference setting).
\<close>

theorem Update_keeps_identity_fields:
  "object (Update d inst (StatefulSetObject sts)) = StatefulSetObject (updated d inst sts) \<and>
   ss_ServiceName (sts_Spec (updated d inst sts)) = ss_ServiceName (sts_Spec sts) \<and>
   ss_Selector (sts_Spec (updated d inst sts)) = ss_Selector (sts_Spec sts) \<and>
   ss_VolumeClaimTemplates (sts_Spec (updated d inst sts)) = ss_VolumeClaimTemplates (sts_Spec sts) \<and>
   object (Update d inst (OtherObject kind)) = OtherObject kind \<and>
   (annotations_settle d inst \<and> owner_settles d inst \<and>
    failure (Update d inst (StatefulSetObject sts)) = None \<longrightarrow>
      Update d (with_replicas m inst) (object (Update d inst (StatefulSetObject sts))) =
        \<lparr>failure = None,
         object = StatefulSetObject
                    (on_spec (\<lambda>s. s\<lparr>ss_Replicas := Some m\<rparr>) (updated d inst sts)),
         logged = logged (Update d inst (StatefulSetObject sts))\<rparr>)"
  using Update_replicas_only[of d inst sts m]
  by (simp add: Update_sts Update_other updated_frame)

theorem Update_keeps_identity_fields_witness:
  "Update example_deps (with_replicas 5 my_cluster)
     (object (Update example_deps my_cluster (StatefulSetObject live_statefulSet))) =
     \<lparr>failure = None,
      object = StatefulSetObject
                 (on_spec (\<lambda>s. s\<lparr>ss_Replicas := Some 5\<rparr>)
                    (updated example_deps my_cluster live_statefulSet)),
      logged = logged (Update example_deps my_cluster (StatefulSetObject live_statefulSet))\<rparr> \<and>
   ss_ServiceName (sts_Spec (updated example_deps my_cluster live_statefulSet))
     = ''my-cluster-rabbitmq-headless''"
proof -
  have settle: "annotations_settle example_deps my_cluster" "owner_settles example_deps my_cluster"
    unfolding example_deps_def by (rule model_annotations_settle, rule model_owner_settles)
  have name: "ss_ServiceName (sts_Spec live_statefulSet) = ''my-cluster-rabbitmq-headless''"
    by (simp add: live_statefulSet_def)
  note claim = Update_keeps_identity_fields
    [of example_deps my_cluster live_statefulSet "''Service''" 5]
  from claim settle example_success
  have "Update example_deps (with_replicas 5 my_cluster)
     (object (Update example_deps my_cluster (StatefulSetObject live_statefulSet))) =
     \<lparr>failure = None,
      object = StatefulSetObject
                 (on_spec (\<lambda>s. s\<lparr>ss_Replicas := Some 5\<rparr>)
                    (updated example_deps my_cluster live_statefulSet)),
      logged = logged (Update example_deps my_cluster (StatefulSetObject live_statefulSet))\<rparr>"
    by (elim conjE impE) (intro conjI, assumption+)
  moreover from claim
  have "ss_ServiceName (sts_Spec (updated example_deps my_cluster live_statefulSet))
          = ss_ServiceName (sts_Spec live_statefulSet)"
    by (elim conjE)
  ultimately show ?thesis by (simp only: name simp_thms)
qed

lemma params_stamps:
  assumes "SetControllerReference d (rc_ObjectMeta inst)
             (om_Namespace (sts_ObjectMeta sts)) (om_OwnerReferences (sts_ObjectMeta sts)) = Inr refs"
  shows "om_Labels (sts_ObjectMeta (object (setStatefulSetParams d inst sts)))
           = GetLabels d (Name inst) (Labels inst)"
    and "om_Labels (pt_ObjectMeta (ss_Template (sts_Spec (object (setStatefulSetParams d inst sts)))))
           = GetLabels d (Name inst) (Labels inst)"
    and "om_OwnerReferences (sts_ObjectMeta (object (setStatefulSetParams d inst sts))) = refs"
    and "ss_Replicas (sts_Spec (object (setStatefulSetParams d inst sts)))
           = Some (spec_Replicas (rc_Spec inst))"
  using assms
  by (simp_all add: setStatefulSetParams_def Let_def on_defs stopped_def
        split: sum.splits option.splits)

lemma params_stopped:
  assumes "SetControllerReference d (rc_ObjectMeta inst)
             (om_Namespace (sts_ObjectMeta sts)) (om_OwnerReferences (sts_ObjectMeta sts)) = Inl err"
  shows "object (setStatefulSetParams d inst sts) = sts"
  using assms by (simp add: setStatefulSetParams_def stopped_def)

lemma params_template:
  assumes "SetControllerReference d (rc_ObjectMeta inst)
             (om_Namespace (sts_ObjectMeta sts)) (om_OwnerReferences (sts_ObjectMeta sts)) = Inr refs"
    and "SetControllerReference d (rc_ObjectMeta inst)
             (om_Namespace (sts_ObjectMeta other)) (om_OwnerReferences (sts_ObjectMeta other))
           = Inr refs'"
    and "ss_Template (sts_Spec other) = ss_Template (sts_Spec sts)"
  shows "ss_Template (sts_Spec (object (setStatefulSetParams d inst other)))
           = ss_Template (sts_Spec (object (setStatefulSetParams d inst sts)))"
  using assms
  by (simp add: setStatefulSetParams_def Let_def on_defs stopped_def
        split: sum.splits option.splits)

lemma prepared_template:
  "ss_Template (sts_Spec (prepared d inst sts)) =
     (podTemplateSpec d inst)
       \<lparr>pt_ObjectMeta := (pt_ObjectMeta (podTemplateSpec d inst))
          \<lparr>om_Annotations :=
             ReconcileAnnotations d (om_Annotations (pt_ObjectMeta (ss_Template (sts_Spec sts))))
               (Annotations inst)\<rparr>\<rparr>"
  by (simp add: prepared_def on_defs)

lemma updated_template:
  assumes "om_Annotations (pt_ObjectMeta (ss_Template (sts_Spec other)))
             = om_Annotations (pt_ObjectMeta (ss_Template (sts_Spec sts)))"
    and "isl (SetControllerReference d (rc_ObjectMeta inst)
             (om_Namespace (sts_ObjectMeta other)) (om_OwnerReferences (sts_ObjectMeta other)))
           = isl (SetControllerReference d (rc_ObjectMeta inst)
             (om_Namespace (sts_ObjectMeta sts)) (om_OwnerReferences (sts_ObjectMeta sts)))"
  shows "ss_Template (sts_Spec (updated d inst other)) = ss_Template (sts_Spec (updated d inst sts))"
proof -
  have same: "ss_Template (sts_Spec (prepared d inst other))
      = ss_Template (sts_Spec (prepared d inst sts))"
    by (simp add: prepared_template assms(1))
  show ?thesis
  proof (cases "SetControllerReference d (rc_ObjectMeta inst)
             (om_Namespace (sts_ObjectMeta sts)) (om_OwnerReferences (sts_ObjectMeta sts))")
    case (Inl err)
    with assms(2) obtain err' where "SetControllerReference d (rc_ObjectMeta inst)
             (om_Namespace (sts_ObjectMeta other)) (om_OwnerReferences (sts_ObjectMeta other))
           = Inl err'"
      by (cases "SetControllerReference d (rc_ObjectMeta inst)
             (om_Namespace (sts_ObjectMeta other)) (om_OwnerReferences (sts_ObjectMeta other))")
         simp_all
    with Inl same show ?thesis
      by (simp add: updated_eq params_stopped)
  next
    case (Inr refs)
    with assms(2) obtain refs' where "SetControllerReference d (rc_ObjectMeta inst)
             (om_Namespace (sts_ObjectMeta other)) (om_OwnerReferences (sts_ObjectMeta other))
           = Inr refs'"
      by (cases "SetControllerReference d (rc_ObjectMeta inst)
             (om_Namespace (sts_ObjectMeta other)) (om_OwnerReferences (sts_ObjectMeta other))")
         simp_all
    with Inr same show ?thesis
      unfolding updated_eq by (intro params_template[where refs = refs and refs' = refs']) simp_all
  qed
qed

lemma model_unmanaged:
  "\<not> managed key \<Longrightarrow> unmanaged (reference_deps managed) inst key"
  by (simp add: unmanaged_def reference_deps_def ReconcileAnnotations_model_def)

lemma labelled_facts:
  "om_Namespace (sts_ObjectMeta labelled_statefulSet) = ''default''"
  "om_OwnerReferences (sts_ObjectMeta labelled_statefulSet) = []"
  "om_Annotations (pt_ObjectMeta (ss_Template (sts_Spec labelled_statefulSet)))
     = om_Annotations (pt_ObjectMeta (ss_Template (sts_Spec live_statefulSet)))"
  "om_Labels (sts_ObjectMeta labelled_statefulSet) ''foreign'' = Some ''x''"
  "om_Labels (pt_ObjectMeta (ss_Template (sts_Spec labelled_statefulSet))) ''foreign'' = Some ''x''"
  "om_Labels (sts_ObjectMeta live_statefulSet) ''foreign'' = None"
  by (simp_all add: labelled_statefulSet_def on_defs live_statefulSet_def zero_ObjectMeta_def
        zero_PodTemplateSpec_def)

lemma example_labels:
  "GetLabels example_deps (Name my_cluster) (Labels my_cluster) ''foreign'' = None"
  by (simp add: example_deps_def reference_deps_def GetLabels_model_def Label_model_def
        my_cluster_def Name_def Labels_def zero_ObjectMeta_def)

lemma owned_meta:
  "om_Namespace (sts_ObjectMeta owned_statefulSet) = ''default''"
  "om_OwnerReferences (sts_ObjectMeta owned_statefulSet) =
     [\<lparr>or_APIVersion = ''apps/v1'', or_Kind = ''Deployment'', or_Name = ''other'',
       or_UID = ''d00d'', or_Controller = Some True, or_BlockOwnerDeletion = Some True\<rparr>]"
  by (simp_all add: owned_statefulSet_def on_defs live_statefulSet_def zero_ObjectMeta_def)

lemma owned_setter:
  "SetControllerReference example_deps (rc_ObjectMeta my_cluster_without_resources)
     ''default''
     [\<lparr>or_APIVersion = ''apps/v1'', or_Kind = ''Deployment'', or_Name = ''other'',
       or_UID = ''d00d'', or_Controller = Some True, or_BlockOwnerDeletion = Some True\<rparr>]
     = Inl (SetterError ''object is already owned by another controller'')"
  by (simp add: example_deps_def reference_deps_def SetControllerReference_model_def
        my_cluster_without_resources_def my_cluster_def zero_ObjectMeta_def
        controllerReference_def)

text \<open>
  C4 (as amended). Update preserves every field outside the set it writes, and that set is
  wider than the mutable fields: it holds the labels, the annotations and the owner
  references of the object's metadata, the replica count and the whole pod template. The
  name, the namespace, the platform-assigned UID, resource version and creation timestamp,
  the service name, the selector and the volume claim templates are those of the object
  given, also when Update stops with an error or a panic. Both annotation maps are
  reconciled from the maps the object had: an annotation key that is unmanaged for the
  instance keeps the value (or the absence) it had before Update, on the object and on its
  pod template. Labels are not reconciled: once the owner reference is set, the labels of
  the object and of its pod template are the labels computed from the instance alone, the
  owner references are those the setter answered and the replica count is the instance's;
  when the setter refuses, labels, owner references and replica count stay as they were.
  The pod template is rebuilt from the instance: of the template the object had, only the
  annotations have a part in the template Update leaves.
\<close>

theorem Update_preserves_unmanaged:
  "object (Update d inst (StatefulSetObject sts)) = StatefulSetObject (updated d inst sts) \<and>
   object (Update d inst (OtherObject kind)) = OtherObject kind \<and>
   updated d inst sts =
     sts\<lparr>sts_ObjectMeta :=
           (sts_ObjectMeta sts)
             \<lparr>om_Labels := om_Labels (sts_ObjectMeta (updated d inst sts)),
              om_Annotations := om_Annotations (sts_ObjectMeta (updated d inst sts)),
              om_OwnerReferences := om_OwnerReferences (sts_ObjectMeta (updated d inst sts))\<rparr>,
         sts_Spec :=
           (sts_Spec sts)
             \<lparr>ss_Replicas := ss_Replicas (sts_Spec (updated d inst sts)),
              ss_Template := ss_Template (sts_Spec (updated d inst sts))\<rparr>\<rparr> \<and>
   (unmanaged d inst key \<longrightarrow>
      om_Annotations (sts_ObjectMeta (updated d inst sts)) key
        = om_Annotations (sts_ObjectMeta sts) key \<and>
      om_Annotations (pt_ObjectMeta (ss_Template (sts_Spec (updated d inst sts)))) key
        = om_Annotations (pt_ObjectMeta (ss_Template (sts_Spec sts))) key) \<and>
   om_Annotations (sts_ObjectMeta (updated d inst sts))
     = ReconcileAnnotations d (om_Annotations (sts_ObjectMeta sts)) (Annotations inst) \<and>
   om_Annotations (pt_ObjectMeta (ss_Template (sts_Spec (updated d inst sts))))
     = ReconcileAnnotations d (om_Annotations (pt_ObjectMeta (ss_Template (sts_Spec sts))))
         (Annotations inst) \<and>
   (SetControllerReference d (rc_ObjectMeta inst)
       (om_Namespace (sts_ObjectMeta sts)) (om_OwnerReferences (sts_ObjectMeta sts)) = Inr refs \<longrightarrow>
      om_Labels (sts_ObjectMeta (updated d inst sts)) = GetLabels d (Name inst) (Labels inst) \<and>
      om_Labels (pt_ObjectMeta (ss_Template (sts_Spec (updated d inst sts))))
        = GetLabels d (Name inst) (Labels inst) \<and>
      om_OwnerReferences (sts_ObjectMeta (updated d inst sts)) = refs \<and>
      ss_Replicas (sts_Spec (updated d inst sts)) = Some (spec_Replicas (rc_Spec inst))) \<and>
   (SetControllerReference d (rc_ObjectMeta inst)
       (om_Namespace (sts_ObjectMeta sts)) (om_OwnerReferences (sts_ObjectMeta sts)) = Inl err \<longrightarrow>
      om_Labels (sts_ObjectMeta (updated d inst sts)) = om_Labels (sts_ObjectMeta sts) \<and>
      om_OwnerReferences (sts_ObjectMeta (updated d inst sts))
        = om_OwnerReferences (sts_ObjectMeta sts) \<and>
      ss_Replicas (sts_Spec (updated d inst sts)) = ss_Replicas (sts_Spec sts)) \<and>
   (om_Annotations (pt_ObjectMeta (ss_Template (sts_Spec other)))
      = om_Annotations (pt_ObjectMeta (ss_Template (sts_Spec sts))) \<and>
    isl (SetControllerReference d (rc_ObjectMeta inst)
          (om_Namespace (sts_ObjectMeta other)) (om_OwnerReferences (sts_ObjectMeta other)))
      = isl (SetControllerReference d (rc_ObjectMeta inst)
          (om_Namespace (sts_ObjectMeta sts)) (om_OwnerReferences (sts_ObjectMeta sts))) \<longrightarrow>
      ss_Template (sts_Spec (updated d inst other)) = ss_Template (sts_Spec (updated d inst sts)))"
proof -
  have frame: "object (Update d inst (StatefulSetObject sts)) = StatefulSetObject (updated d inst sts)"
    "object (Update d inst (OtherObject kind)) = OtherObject kind"
    by (simp_all add: Update_sts Update_other)
  have kept: "unmanaged d inst key \<longrightarrow>
      om_Annotations (sts_ObjectMeta (updated d inst sts)) key
        = om_Annotations (sts_ObjectMeta sts) key \<and>
      om_Annotations (pt_ObjectMeta (ss_Template (sts_Spec (updated d inst sts)))) key
        = om_Annotations (pt_ObjectMeta (ss_Template (sts_Spec sts))) key"
    by (simp add: updated_frame unmanaged_def)
  have stamped: "om_Labels (sts_ObjectMeta (updated d inst sts)) = GetLabels d (Name inst) (Labels inst) \<and>
      om_Labels (pt_ObjectMeta (ss_Template (sts_Spec (updated d inst sts))))
        = GetLabels d (Name inst) (Labels inst) \<and>
      om_OwnerReferences (sts_ObjectMeta (updated d inst sts)) = refs \<and>
      ss_Replicas (sts_Spec (updated d inst sts)) = Some (spec_Replicas (rc_Spec inst))"
    if "SetControllerReference d (rc_ObjectMeta inst)
       (om_Namespace (sts_ObjectMeta sts)) (om_OwnerReferences (sts_ObjectMeta sts)) = Inr refs"
    unfolding updated_eq
    by (intro conjI params_stamps[where refs = refs]) (simp_all add: that)
  have refused: "om_Labels (sts_ObjectMeta (updated d inst sts)) = om_Labels (sts_ObjectMeta sts) \<and>
      om_OwnerReferences (sts_ObjectMeta (updated d inst sts))
        = om_OwnerReferences (sts_ObjectMeta sts) \<and>
      ss_Replicas (sts_Spec (updated d inst sts)) = ss_Replicas (sts_Spec sts)"
    if "SetControllerReference d (rc_ObjectMeta inst)
       (om_Namespace (sts_ObjectMeta sts)) (om_OwnerReferences (sts_ObjectMeta sts)) = Inl err"
  proof -
    have "updated d inst sts = prepared d inst sts"
      unfolding updated_eq by (rule params_stopped[where err = err]) (simp add: that)
    then show ?thesis by (simp add: prepared_def on_defs)
  qed
  show ?thesis
    using frame updated_differs_only[of d inst sts] kept stamped refused
      updated_template[of other sts d inst]
    by (simp only: updated_frame simp_thms) blast
qed

theorem Update_preserves_unmanaged_witness:
  "om_Annotations (sts_ObjectMeta (updated example_deps (with_replicas 5 my_cluster) live_statefulSet))
      ''team'' = Some ''payments'' \<and>
   om_Annotations (pt_ObjectMeta (ss_Template (sts_Spec
      (updated example_deps (with_replicas 5 my_cluster) live_statefulSet)))) ''sidecar'' = Some ''on'' \<and>
   om_Labels (sts_ObjectMeta (updated example_deps (with_replicas 5 my_cluster) live_statefulSet))
     = GetLabels example_deps (Name (with_replicas 5 my_cluster)) (Labels (with_replicas 5 my_cluster)) \<and>
   ss_Replicas (sts_Spec (updated example_deps (with_replicas 5 my_cluster) live_statefulSet))
     = Some 5 \<and>
   ss_Template (sts_Spec (updated example_deps (with_replicas 5 my_cluster) labelled_statefulSet))
     = ss_Template (sts_Spec (updated example_deps (with_replicas 5 my_cluster) live_statefulSet)) \<and>
   om_Labels (sts_ObjectMeta (updated example_deps my_cluster_without_resources owned_statefulSet))
     = om_Labels (sts_ObjectMeta owned_statefulSet)"
proof -
  have team: "unmanaged example_deps (with_replicas 5 my_cluster) ''team''"
    unfolding example_deps_def by (rule model_unmanaged) (simp add: example_managed_def)
  have sidecar: "unmanaged example_deps (with_replicas 5 my_cluster) ''sidecar''"
    unfolding example_deps_def by (rule model_unmanaged) (simp add: example_managed_def)
  have before:
    "om_Annotations (sts_ObjectMeta live_statefulSet) ''team'' = Some ''payments''"
    "om_Annotations (pt_ObjectMeta (ss_Template (sts_Spec live_statefulSet))) ''sidecar'' = Some ''on''"
    by (simp_all add: live_statefulSet_def zero_ObjectMeta_def zero_PodTemplateSpec_def)
  have meta: "rc_ObjectMeta (with_replicas 5 my_cluster) = rc_ObjectMeta my_cluster"
    "spec_Replicas (rc_Spec (with_replicas 5 my_cluster)) = 5"
    by (simp_all add: with_replicas_def)
  have set: "SetControllerReference example_deps (rc_ObjectMeta (with_replicas 5 my_cluster))
       (om_Namespace (sts_ObjectMeta live_statefulSet))
       (om_OwnerReferences (sts_ObjectMeta live_statefulSet))
      = Inr [controllerReference (rc_ObjectMeta my_cluster)]"
    "SetControllerReference example_deps (rc_ObjectMeta (with_replicas 5 my_cluster))
       (om_Namespace (sts_ObjectMeta labelled_statefulSet))
       (om_OwnerReferences (sts_ObjectMeta labelled_statefulSet))
      = Inr [controllerReference (rc_ObjectMeta my_cluster)]"
    by (simp_all add: meta live_meta labelled_facts example_setter)
  have refused:
    "SetControllerReference example_deps (rc_ObjectMeta my_cluster_without_resources)
       (om_Namespace (sts_ObjectMeta owned_statefulSet))
       (om_OwnerReferences (sts_ObjectMeta owned_statefulSet))
      = Inl (SetterError ''object is already owned by another controller'')"
    by (simp add: owned_meta owned_setter)
  note on_team = Update_preserves_unmanaged
    [where d = example_deps and inst = "with_replicas 5 my_cluster" and sts = live_statefulSet
       and kind = "''Service''" and key = "''team''"
       and refs = "[controllerReference (rc_ObjectMeta my_cluster)]"
       and err = SetterPanic and other = labelled_statefulSet]
  note on_sidecar = Update_preserves_unmanaged
    [where d = example_deps and inst = "with_replicas 5 my_cluster" and sts = live_statefulSet
       and kind = "''Service''" and key = "''sidecar''"
       and refs = "[controllerReference (rc_ObjectMeta my_cluster)]"
       and err = SetterPanic and other = labelled_statefulSet]
  note on_owned = Update_preserves_unmanaged
    [where d = example_deps and inst = my_cluster_without_resources and sts = owned_statefulSet
       and kind = "''Service''" and key = "''team''" and refs = "[]"
       and err = "SetterError ''object is already owned by another controller''"
       and other = owned_statefulSet]
  from on_team team before(1)
  have a: "om_Annotations (sts_ObjectMeta
      (updated example_deps (with_replicas 5 my_cluster) live_statefulSet)) ''team''
      = Some ''payments''"
    by - (elim conjE, simp)
  from on_sidecar sidecar before(2)
  have b: "om_Annotations (pt_ObjectMeta (ss_Template (sts_Spec
      (updated example_deps (with_replicas 5 my_cluster) live_statefulSet)))) ''sidecar''
      = Some ''on''"
    by - (elim conjE, simp)
  from on_team set(1)
  have c: "om_Labels (sts_ObjectMeta
      (updated example_deps (with_replicas 5 my_cluster) live_statefulSet))
     = GetLabels example_deps (Name (with_replicas 5 my_cluster))
         (Labels (with_replicas 5 my_cluster))"
    by - (elim conjE, simp)
  from on_team set(1) meta(2)
  have r: "ss_Replicas (sts_Spec
      (updated example_deps (with_replicas 5 my_cluster) live_statefulSet)) = Some 5"
    by - (elim conjE, simp)
  from on_team set labelled_facts(3)
  have e: "ss_Template (sts_Spec
      (updated example_deps (with_replicas 5 my_cluster) labelled_statefulSet))
     = ss_Template (sts_Spec (updated example_deps (with_replicas 5 my_cluster) live_statefulSet))"
    by - (elim conjE, simp)
  from on_owned refused
  have f: "om_Labels (sts_ObjectMeta
      (updated example_deps my_cluster_without_resources owned_statefulSet))
     = om_Labels (sts_ObjectMeta owned_statefulSet)"
    by - (elim conjE, simp)
  from a b c r e f show ?thesis by (intro conjI)
qed

text \<open>
  A label that someone else put on the object and on its pod template is outside the mutable
  fields and does not survive a successful Update: the labelled StatefulSet ends with the
  labels of the unlabelled one.
\<close>

theorem Update_replaces_labels_counterexample:
  "failure (Update example_deps my_cluster (StatefulSetObject labelled_statefulSet)) = None \<and>
   object (Update example_deps my_cluster (StatefulSetObject labelled_statefulSet))
     = StatefulSetObject (updated example_deps my_cluster labelled_statefulSet) \<and>
   om_Labels (sts_ObjectMeta labelled_statefulSet) ''foreign'' = Some ''x'' \<and>
   om_Labels (sts_ObjectMeta (updated example_deps my_cluster labelled_statefulSet)) ''foreign''
     = None \<and>
   om_Labels (pt_ObjectMeta (ss_Template (sts_Spec labelled_statefulSet))) ''foreign''
     = Some ''x'' \<and>
   om_Labels (pt_ObjectMeta (ss_Template (sts_Spec
      (updated example_deps my_cluster labelled_statefulSet)))) ''foreign'' = None \<and>
   om_Labels (sts_ObjectMeta live_statefulSet) ''foreign'' = None \<and>
   om_Labels (sts_ObjectMeta (updated example_deps my_cluster labelled_statefulSet))
     = om_Labels (sts_ObjectMeta (updated example_deps my_cluster live_statefulSet))"
proof -
  have set: "SetControllerReference example_deps (rc_ObjectMeta my_cluster)
       (om_Namespace (sts_ObjectMeta labelled_statefulSet))
       (om_OwnerReferences (sts_ObjectMeta labelled_statefulSet))
      = Inr [controllerReference (rc_ObjectMeta my_cluster)]"
    "SetControllerReference example_deps (rc_ObjectMeta my_cluster)
       (om_Namespace (sts_ObjectMeta live_statefulSet))
       (om_OwnerReferences (sts_ObjectMeta live_statefulSet))
      = Inr [controllerReference (rc_ObjectMeta my_cluster)]"
    by (simp_all add: live_meta labelled_facts example_setter)
  have ok: "failure (Update example_deps my_cluster (StatefulSetObject labelled_statefulSet)) = None"
    by (simp add: Update_failure set example_parse) (simp add: my_cluster_def)
  have labelled:
    "om_Labels (sts_ObjectMeta (updated example_deps my_cluster labelled_statefulSet))
       = GetLabels example_deps (Name my_cluster) (Labels my_cluster)"
    "om_Labels (pt_ObjectMeta (ss_Template (sts_Spec
        (updated example_deps my_cluster labelled_statefulSet))))
       = GetLabels example_deps (Name my_cluster) (Labels my_cluster)"
    unfolding updated_eq
    by (rule params_stamps[where refs = "[controllerReference (rc_ObjectMeta my_cluster)]"],
        simp add: set)+
  have live:
    "om_Labels (sts_ObjectMeta (updated example_deps my_cluster live_statefulSet))
       = GetLabels example_deps (Name my_cluster) (Labels my_cluster)"
    unfolding updated_eq
    by (rule params_stamps[where refs = "[controllerReference (rc_ObjectMeta my_cluster)]"])
       (simp add: set)
  show ?thesis
    using ok labelled_facts example_labels
    by (simp add: Update_sts labelled live)
qed




lemma Build_failed:
  "failed (Build d inst) =
     (case p_Storage (spec_Persistence (rc_Spec inst)) of
        None \<Rightarrow> Some PanicNilPointer
      | Some storage \<Rightarrow>
          (case SetControllerReference d (rc_ObjectMeta inst) (Namespace inst) [] of
             Inl err \<Rightarrow> Some (setterError err)
           | Inr refs \<Rightarrow> None))"
  by (simp add: failed_def Build_def statefulSet_def persistentVolumeClaim_def Let_def
        zero_ObjectMeta_def split: option.splits sum.splits)

lemma Build_panicked:
  "panicked (failed (Build d inst)) \<longleftrightarrow>
     p_Storage (spec_Persistence (rc_Spec inst)) = None \<or>
     SetControllerReference d (rc_ObjectMeta inst) (Namespace inst) [] = Inl SetterPanic"
proof -
  have "is_panic (setterError f) \<longleftrightarrow> f = SetterPanic" for f
    by (cases f) simp_all
  then show ?thesis
    by (auto simp: Build_failed panicked_def split: option.splits sum.splits)
qed

lemma Update_panicked:
  "panicked (failure (Update d inst (StatefulSetObject sts))) \<longleftrightarrow>
     SetControllerReference d (rc_ObjectMeta inst)
        (om_Namespace (sts_ObjectMeta sts)) (om_OwnerReferences (sts_ObjectMeta sts))
       = Inl SetterPanic \<or>
     (spec_Resources (rc_Spec inst) = None \<and>
      \<not> isl (SetControllerReference d (rc_ObjectMeta inst)
               (om_Namespace (sts_ObjectMeta sts)) (om_OwnerReferences (sts_ObjectMeta sts))) \<and>
      \<not> isl (ParseQuantity d initContainerCPU) \<and>
      \<not> isl (ParseQuantity d initContainerMemory))"
proof -
  have "is_panic (setterError f) \<longleftrightarrow> f = SetterPanic" for f
    by (cases f) simp_all
  then show ?thesis
    by (auto simp: Update_failure panicked_def split: option.splits sum.splits)
qed

lemma nil_scheme_setter:
  "SetControllerReference nil_scheme_deps owner ns refs = Inl SetterPanic"
  by (simp add: nil_scheme_deps_def)

text \<open>
  C9 (as amended). Build and Update panic exactly where an implicit precondition is broken,
  and the preconditions are more than the three the claim names. The method Build on a
  builder panics if and only if the builder has no instance, or the storage size of the
  instance is nil, or the owner-reference setter panics (as it does for a builder without a
  scheme). The method Update panics if and only if the object is not a StatefulSet (the type
  assertion), or is a nil StatefulSet pointer, or the builder has no instance, or the setter
  panics, or the resources of the instance are nil and the dereference is reached. The
  dereference of the resources is not unconditional: it comes after the owner reference is
  set and both init-container constants are parsed, so with nil resources Update returns the
  setter's error, without a panic, when the setter refuses. With an instance, a StatefulSet,
  resources (for Update), a storage size (for Build) and a setter that does not panic,
  neither method panics.
\<close>

theorem Build_Update_panic_preconditions:
  "(panicked (failed (StatefulSetBuilder_Build d builder)) \<longleftrightarrow>
      (case Instance builder of
         None \<Rightarrow> True
       | Some inst \<Rightarrow>
           p_Storage (spec_Persistence (rc_Spec inst)) = None \<or>
           SetControllerReference d (rc_ObjectMeta inst) (Namespace inst) [] = Inl SetterPanic)) \<and>
   (panicked (failure (StatefulSetBuilder_Update d builder obj)) \<longleftrightarrow>
      (case obj of
         OtherObject kind \<Rightarrow> True
       | NilStatefulSetObject \<Rightarrow> True
       | StatefulSetObject existing \<Rightarrow>
           (case Instance builder of
              None \<Rightarrow> True
            | Some inst \<Rightarrow>
                SetControllerReference d (rc_ObjectMeta inst)
                   (om_Namespace (sts_ObjectMeta existing))
                   (om_OwnerReferences (sts_ObjectMeta existing))
                  = Inl SetterPanic \<or>
                (spec_Resources (rc_Spec inst) = None \<and>
                 \<not> isl (SetControllerReference d (rc_ObjectMeta inst)
                          (om_Namespace (sts_ObjectMeta existing))
                          (om_OwnerReferences (sts_ObjectMeta existing))) \<and>
                 \<not> isl (ParseQuantity d initContainerCPU) \<and>
                 \<not> isl (ParseQuantity d initContainerMemory))))) \<and>
   StatefulSetBuilder_Build d \<lparr>Instance = Some inst\<rparr> = Build d inst \<and>
   StatefulSetBuilder_Update d \<lparr>Instance = Some inst\<rparr> obj = Update d inst obj \<and>
   (p_Storage (spec_Persistence (rc_Spec inst)) = None \<longrightarrow> Build d inst = Inl PanicNilPointer) \<and>
   failure (Update d inst (OtherObject kind)) = Some PanicTypeAssertion \<and>
   failure (Update d inst NilStatefulSetObject) = Some PanicNilPointer \<and>
   (spec_Resources (rc_Spec inst) = None \<and>
    SetControllerReference d (rc_ObjectMeta inst)
       (om_Namespace (sts_ObjectMeta sts)) (om_OwnerReferences (sts_ObjectMeta sts)) = Inr refs \<and>
    ParseQuantity d initContainerCPU = Inr cpuRequest \<and>
    ParseQuantity d initContainerMemory = Inr memoryRequest \<longrightarrow>
      failure (Update d inst (StatefulSetObject sts)) = Some PanicNilPointer) \<and>
   (spec_Resources (rc_Spec inst) = None \<and>
    SetControllerReference d (rc_ObjectMeta inst)
       (om_Namespace (sts_ObjectMeta sts)) (om_OwnerReferences (sts_ObjectMeta sts))
      = Inl (SetterError message) \<longrightarrow>
      failure (Update d inst (StatefulSetObject sts)) = Some (ControllerReferenceError message)) \<and>
   (spec_Resources (rc_Spec inst) \<noteq> None \<and>
    SetControllerReference d (rc_ObjectMeta inst)
       (om_Namespace (sts_ObjectMeta sts)) (om_OwnerReferences (sts_ObjectMeta sts))
      \<noteq> Inl SetterPanic \<longrightarrow>
      \<not> panicked (failure (Update d inst (StatefulSetObject sts)))) \<and>
   (p_Storage (spec_Persistence (rc_Spec inst)) \<noteq> None \<and>
    SetControllerReference d (rc_ObjectMeta inst) (Namespace inst) [] \<noteq> Inl SetterPanic \<longrightarrow>
      \<not> panicked (failed (Build d inst)))"
proof -
  have build: "panicked (failed (StatefulSetBuilder_Build d builder)) \<longleftrightarrow>
      (case Instance builder of
         None \<Rightarrow> True
       | Some inst \<Rightarrow>
           p_Storage (spec_Persistence (rc_Spec inst)) = None \<or>
           SetControllerReference d (rc_ObjectMeta inst) (Namespace inst) [] = Inl SetterPanic)"
  proof (cases "Instance builder")
    case None
    then show ?thesis
      by (simp add: StatefulSetBuilder_Build_def failed_def panicked_def)
  next
    case (Some inst)
    then show ?thesis
      by (simp add: StatefulSetBuilder_Build_def Build_panicked)
  qed
  have update: "panicked (failure (StatefulSetBuilder_Update d builder obj)) \<longleftrightarrow>
      (case obj of
         OtherObject kind \<Rightarrow> True
       | NilStatefulSetObject \<Rightarrow> True
       | StatefulSetObject existing \<Rightarrow>
           (case Instance builder of
              None \<Rightarrow> True
            | Some inst \<Rightarrow>
                SetControllerReference d (rc_ObjectMeta inst)
                   (om_Namespace (sts_ObjectMeta existing))
                   (om_OwnerReferences (sts_ObjectMeta existing))
                  = Inl SetterPanic \<or>
                (spec_Resources (rc_Spec inst) = None \<and>
                 \<not> isl (SetControllerReference d (rc_ObjectMeta inst)
                          (om_Namespace (sts_ObjectMeta existing))
                          (om_OwnerReferences (sts_ObjectMeta existing))) \<and>
                 \<not> isl (ParseQuantity d initContainerCPU) \<and>
                 \<not> isl (ParseQuantity d initContainerMemory))))"
  proof (cases obj)
    case (StatefulSetObject sts)
    show ?thesis
    proof (cases "Instance builder")
      case None
      with StatefulSetObject show ?thesis
        by (simp add: StatefulSetBuilder_Update_def stopped_def panicked_def)
    next
      case (Some inst)
      with StatefulSetObject show ?thesis
        by (simp add: StatefulSetBuilder_Update_def Update_panicked)
    qed
  qed (simp_all add: StatefulSetBuilder_Update_def stopped_def panicked_def)
  have wrap: "StatefulSetBuilder_Build d \<lparr>Instance = Some inst\<rparr> = Build d inst"
    "StatefulSetBuilder_Update d \<lparr>Instance = Some inst\<rparr> obj = Update d inst obj"
    by (cases obj; simp add: StatefulSetBuilder_Build_def StatefulSetBuilder_Update_def
          Update_other Update_nil stopped_def)+
  have storage: "Build d inst = Inl PanicNilPointer"
    if "p_Storage (spec_Persistence (rc_Spec inst)) = None"
    using that by (simp add: Build_def statefulSet_def persistentVolumeClaim_def)
  have reached: "failure (Update d inst (StatefulSetObject sts)) = Some PanicNilPointer"
    if "spec_Resources (rc_Spec inst) = None"
      "SetControllerReference d (rc_ObjectMeta inst)
         (om_Namespace (sts_ObjectMeta sts)) (om_OwnerReferences (sts_ObjectMeta sts)) = Inr refs"
      "ParseQuantity d initContainerCPU = Inr cpuRequest"
      "ParseQuantity d initContainerMemory = Inr memoryRequest"
    using that by (simp add: Update_failure)
  have returned: "failure (Update d inst (StatefulSetObject sts))
        = Some (ControllerReferenceError message)"
    if "SetControllerReference d (rc_ObjectMeta inst)
         (om_Namespace (sts_ObjectMeta sts)) (om_OwnerReferences (sts_ObjectMeta sts))
        = Inl (SetterError message)"
    using that by (simp add: Update_failure)
  have safe: "\<not> panicked (failure (Update d inst (StatefulSetObject sts)))"
    if "spec_Resources (rc_Spec inst) \<noteq> None"
      "SetControllerReference d (rc_ObjectMeta inst)
         (om_Namespace (sts_ObjectMeta sts)) (om_OwnerReferences (sts_ObjectMeta sts))
        \<noteq> Inl SetterPanic"
    using that by (simp add: Update_panicked)
  have safe_build: "\<not> panicked (failed (Build d inst))"
    if "p_Storage (spec_Persistence (rc_Spec inst)) \<noteq> None"
      "SetControllerReference d (rc_ObjectMeta inst) (Namespace inst) [] \<noteq> Inl SetterPanic"
    using that by (simp add: Build_panicked)
  show ?thesis
    using build update wrap storage reached returned safe safe_build
    by (simp add: Update_other Update_nil)
qed

theorem Build_Update_panic_preconditions_witness:
  "panicked (failed (StatefulSetBuilder_Build example_deps \<lparr>Instance = None\<rparr>)) \<and>
   panicked (failure (StatefulSetBuilder_Update example_deps \<lparr>Instance = None\<rparr>
      (StatefulSetObject live_statefulSet))) \<and>
   Build example_deps my_cluster_without_storage = Inl PanicNilPointer \<and>
   failure (Update example_deps my_cluster (OtherObject ''Service'')) = Some PanicTypeAssertion \<and>
   failure (Update example_deps my_cluster NilStatefulSetObject) = Some PanicNilPointer \<and>
   failure (Update example_deps my_cluster_without_resources (StatefulSetObject live_statefulSet))
     = Some PanicNilPointer \<and>
   failure (Update example_deps my_cluster_without_resources
      (StatefulSetObject owned_statefulSet))
     = Some (ControllerReferenceError ''object is already owned by another controller'') \<and>
   \<not> panicked (failure (Update example_deps my_cluster (StatefulSetObject live_statefulSet))) \<and>
   \<not> panicked (failed (Build example_deps my_cluster)) \<and>
   panicked (failure (StatefulSetBuilder_Update nil_scheme_deps \<lparr>Instance = Some my_cluster\<rparr>
      (StatefulSetObject live_statefulSet))) \<and>
   panicked (failed (StatefulSetBuilder_Build nil_scheme_deps \<lparr>Instance = Some my_cluster\<rparr>))"
proof -
  have storage: "p_Storage (spec_Persistence (rc_Spec my_cluster_without_storage)) = None"
    "p_Storage (spec_Persistence (rc_Spec my_cluster)) \<noteq> None"
    by (simp_all add: my_cluster_without_storage_def my_cluster_def)
  have resources: "spec_Resources (rc_Spec my_cluster_without_resources) = None"
    "spec_Resources (rc_Spec my_cluster) \<noteq> None"
    by (simp_all add: my_cluster_without_resources_def my_cluster_def)
  have meta: "rc_ObjectMeta my_cluster_without_resources = rc_ObjectMeta my_cluster"
    "Namespace my_cluster = ''default''"
    by (simp_all add: my_cluster_without_resources_def my_cluster_def Namespace_def
          zero_ObjectMeta_def)
  have reached:
    "SetControllerReference example_deps (rc_ObjectMeta my_cluster_without_resources)
       (om_Namespace (sts_ObjectMeta live_statefulSet))
       (om_OwnerReferences (sts_ObjectMeta live_statefulSet))
      = Inr [controllerReference (rc_ObjectMeta my_cluster)]"
    by (simp add: meta live_meta example_setter)
  have refused:
    "SetControllerReference example_deps (rc_ObjectMeta my_cluster_without_resources)
       (om_Namespace (sts_ObjectMeta owned_statefulSet))
       (om_OwnerReferences (sts_ObjectMeta owned_statefulSet))
      = Inl (SetterError ''object is already owned by another controller'')"
    by (simp add: owned_meta owned_setter)
  have set: "SetControllerReference example_deps (rc_ObjectMeta my_cluster)
       (om_Namespace (sts_ObjectMeta live_statefulSet))
       (om_OwnerReferences (sts_ObjectMeta live_statefulSet)) \<noteq> Inl SetterPanic"
    "SetControllerReference example_deps (rc_ObjectMeta my_cluster) (Namespace my_cluster) []
       \<noteq> Inl SetterPanic"
    by (simp_all add: meta live_meta example_setter)
  note nil_instance = Build_Update_panic_preconditions
    [where d = example_deps and builder = "\<lparr>Instance = None\<rparr>"
       and obj = "StatefulSetObject live_statefulSet" and inst = my_cluster_without_storage]
  note without_resources = Build_Update_panic_preconditions
    [where d = example_deps and inst = my_cluster_without_resources
       and sts = live_statefulSet
       and refs = "[controllerReference (rc_ObjectMeta my_cluster)]"
       and cpuRequest = "\<lparr>q_Milli = 100, q_Format = ''DecimalSI''\<rparr>"
       and memoryRequest = "\<lparr>q_Milli = 524288000000, q_Format = ''BinarySI''\<rparr>"]
  note owned = Build_Update_panic_preconditions
    [where d = example_deps and inst = my_cluster_without_resources
       and sts = owned_statefulSet
       and message = "''object is already owned by another controller''"]
  note complete = Build_Update_panic_preconditions
    [where d = example_deps and inst = my_cluster and kind = "''Service''"
       and sts = live_statefulSet]
  note nil_scheme = Build_Update_panic_preconditions
    [where d = nil_scheme_deps and builder = "\<lparr>Instance = Some my_cluster\<rparr>"
       and obj = "StatefulSetObject live_statefulSet"]
  from nil_instance
  have a: "panicked (failed (StatefulSetBuilder_Build example_deps \<lparr>Instance = None\<rparr>))"
    "panicked (failure (StatefulSetBuilder_Update example_deps \<lparr>Instance = None\<rparr>
      (StatefulSetObject live_statefulSet)))"
    by simp_all
  from nil_instance storage(1)
  have b: "Build example_deps my_cluster_without_storage = Inl PanicNilPointer" by blast
  from complete
  have c: "failure (Update example_deps my_cluster (OtherObject ''Service''))
      = Some PanicTypeAssertion"
    "failure (Update example_deps my_cluster NilStatefulSetObject) = Some PanicNilPointer"
    by blast+
  from without_resources resources(1) reached example_parse
  have e: "failure (Update example_deps my_cluster_without_resources
      (StatefulSetObject live_statefulSet)) = Some PanicNilPointer"
    by blast
  from owned resources(1) refused
  have f: "failure (Update example_deps my_cluster_without_resources
      (StatefulSetObject owned_statefulSet))
     = Some (ControllerReferenceError ''object is already owned by another controller'')"
    by blast
  from complete resources(2) storage(2) set
  have g: "\<not> panicked (failure (Update example_deps my_cluster
      (StatefulSetObject live_statefulSet)))"
    "\<not> panicked (failed (Build example_deps my_cluster))"
    by blast+
  have h: "panicked (failure (StatefulSetBuilder_Update nil_scheme_deps
      \<lparr>Instance = Some my_cluster\<rparr> (StatefulSetObject live_statefulSet)))"
    "panicked (failed (StatefulSetBuilder_Build nil_scheme_deps \<lparr>Instance = Some my_cluster\<rparr>))"
    using nil_scheme [THEN conjunct2, THEN conjunct1] nil_scheme [THEN conjunct1]
    by (simp_all add: nil_scheme_setter)
  from a b c e f g h show ?thesis by blast
qed

text \<open>
  The claim as first stated fails in both directions. For an instance with nil resources and
  a StatefulSet that another controller owns, Update returns the setter's error and does not
  panic: the resources are never dereferenced. For an instance with resources and a storage
  size and a builder without a scheme, Update on a StatefulSet and Build both panic.
\<close>

theorem Update_nil_resources_counterexample:
  "spec_Resources (rc_Spec my_cluster_without_resources) = None \<and>
   failure (Update example_deps my_cluster_without_resources
      (StatefulSetObject owned_statefulSet))
     = Some (ControllerReferenceError ''object is already owned by another controller'') \<and>
   \<not> panicked (failure (Update example_deps my_cluster_without_resources
      (StatefulSetObject owned_statefulSet))) \<and>
   spec_Resources (rc_Spec my_cluster) \<noteq> None \<and>
   p_Storage (spec_Persistence (rc_Spec my_cluster)) \<noteq> None \<and>
   failure (Update nil_scheme_deps my_cluster (StatefulSetObject live_statefulSet))
     = Some PanicInSetControllerReference \<and>
   Build nil_scheme_deps my_cluster = Inl PanicInSetControllerReference \<and>
   panicked (Some PanicInSetControllerReference)"
proof -
  have resources: "spec_Resources (rc_Spec my_cluster_without_resources) = None"
    "spec_Resources (rc_Spec my_cluster) \<noteq> None"
    "p_Storage (spec_Persistence (rc_Spec my_cluster)) \<noteq> None"
    by (simp_all add: my_cluster_without_resources_def my_cluster_def)
  have refused: "failure (Update example_deps my_cluster_without_resources
      (StatefulSetObject owned_statefulSet))
     = Some (ControllerReferenceError ''object is already owned by another controller'')"
    by (simp add: Update_failure owned_meta owned_setter)
  have scheme: "failure (Update nil_scheme_deps my_cluster (StatefulSetObject live_statefulSet))
     = Some PanicInSetControllerReference"
    by (simp add: Update_failure nil_scheme_setter)
  have "failed (Build nil_scheme_deps my_cluster) = Some PanicInSetControllerReference"
    using resources(3) by (auto simp add: Build_failed nil_scheme_setter)
  then have build: "Build nil_scheme_deps my_cluster = Inl PanicInSetControllerReference"
    by (simp add: failed_def split: sum.splits)
  show ?thesis
    using resources refused scheme build by (simp add: panicked_def)
qed

lemma params_names:
  "map c_Name (ps_InitContainers (pod (object (setStatefulSetParams d inst sts))))
     = map c_Name (ps_InitContainers (pod sts))"
  "map c_Name (ps_Containers (pod (object (setStatefulSetParams d inst sts))))
     = map c_Name (ps_Containers (pod sts))"
  by (simp_all add: setStatefulSetParams_def Let_def on_defs stopped_def set0_def
        split: sum.splits option.splits list.splits)

lemma updated_init_resources:
  assumes "SetControllerReference d (rc_ObjectMeta inst)
             (om_Namespace (sts_ObjectMeta sts)) (om_OwnerReferences (sts_ObjectMeta sts)) = Inr refs"
    and "ParseQuantity d initContainerCPU = Inr cpuRequest"
    and "ParseQuantity d initContainerMemory = Inr memoryRequest"
  shows "map c_Resources (ps_InitContainers (pod (updated d inst sts))) =
           [\<lparr>rr_Limits = [''cpu'' \<mapsto> cpuRequest, ''memory'' \<mapsto> memoryRequest],
             rr_Requests = [''cpu'' \<mapsto> cpuRequest, ''memory'' \<mapsto> memoryRequest]\<rparr>]"
    and "spec_Resources (rc_Spec inst) = Some resources \<Longrightarrow>
         map c_Resources (ps_Containers (pod (updated d inst sts))) = [resources]"
proof -
  let ?P = "prepared d inst sts"
  have 1: "SetControllerReference d (rc_ObjectMeta inst)
             (om_Namespace (sts_ObjectMeta ?P)) (om_OwnerReferences (sts_ObjectMeta ?P)) = Inr refs"
    using assms(1) by simp
  have 2: "ps_InitContainers (pod ?P) = [initContainer]"
    and 3: "ps_Containers (pod ?P) = [rabbitmqContainer d inst]"
    by simp_all
  show "map c_Resources (ps_InitContainers (pod (updated d inst sts))) =
           [\<lparr>rr_Limits = [''cpu'' \<mapsto> cpuRequest, ''memory'' \<mapsto> memoryRequest],
             rr_Requests = [''cpu'' \<mapsto> cpuRequest, ''memory'' \<mapsto> memoryRequest]\<rparr>]"
    unfolding updated_eq by (rule params_init_resources(1)[OF 1 assms(2,3) 2 3])
  show "map c_Resources (ps_Containers (pod (updated d inst sts))) = [resources]"
    if "spec_Resources (rc_Spec inst) = Some resources"
    unfolding updated_eq by (rule params_init_resources(2)[OF 1 assms(2,3) 2 3 that])
qed

text \<open>
  C10. The init container's resources are fixed constants. Once the owner reference is set
  and the constants \<^verbatim>\<open>"100m"\<close> and \<^verbatim>\<open>"500Mi"\<close> are parsed, Update leaves one init container,
  \<^verbatim>\<open>copy-config\<close>, whose limits and requests both are the parsed CPU constant under
  \<^verbatim>\<open>cpu\<close> and the parsed memory constant under \<^verbatim>\<open>memory\<close>, whatever resource requirements
  the instance carries; those apply to the one main container, \<^verbatim>\<open>rabbitmq\<close>.
\<close>

theorem Update_init_container_resources:
  assumes "SetControllerReference d (rc_ObjectMeta inst)
             (om_Namespace (sts_ObjectMeta sts)) (om_OwnerReferences (sts_ObjectMeta sts)) = Inr refs"
    and "ParseQuantity d initContainerCPU = Inr cpuRequest"
    and "ParseQuantity d initContainerMemory = Inr memoryRequest"
  shows "initContainerCPU = ''100m'' \<and> initContainerMemory = ''500Mi'' \<and>
     object (Update d inst (StatefulSetObject sts)) = StatefulSetObject (updated d inst sts) \<and>
     map c_Name (ps_InitContainers (pod (updated d inst sts))) = [''copy-config''] \<and>
     map c_Resources (ps_InitContainers (pod (updated d inst sts))) =
       [\<lparr>rr_Limits = [''cpu'' \<mapsto> cpuRequest, ''memory'' \<mapsto> memoryRequest],
         rr_Requests = [''cpu'' \<mapsto> cpuRequest, ''memory'' \<mapsto> memoryRequest]\<rparr>] \<and>
     map c_Resources (ps_InitContainers (pod (updated d (with_resources other inst) sts))) =
       map c_Resources (ps_InitContainers (pod (updated d inst sts))) \<and>
     map c_Name (ps_Containers (pod (updated d inst sts))) = [''rabbitmq''] \<and>
     (spec_Resources (rc_Spec inst) = Some resources \<longrightarrow>
        map c_Resources (ps_Containers (pod (updated d inst sts))) = [resources])"
proof -
  have other: "SetControllerReference d (rc_ObjectMeta (with_resources other inst))
             (om_Namespace (sts_ObjectMeta sts)) (om_OwnerReferences (sts_ObjectMeta sts)) = Inr refs"
    using assms(1) by (simp add: with_resources_def)
  have names: "map c_Name (ps_InitContainers (pod (updated d inst sts))) = [''copy-config'']"
    "map c_Name (ps_Containers (pod (updated d inst sts))) = [''rabbitmq'']"
    by (simp_all add: updated_eq params_names initContainer_def rabbitmqContainer_def)
  show ?thesis
    using updated_init_resources(2)[OF assms, of resources]
    by (simp add: updated_init_resources(1)[OF assms] updated_init_resources(1)[OF other assms(2,3)]
          initContainerCPU_def initContainerMemory_def Update_sts names)
qed

theorem Update_init_container_resources_witness:
  "map c_Resources (ps_InitContainers (pod (updated example_deps my_cluster live_statefulSet))) =
     [\<lparr>rr_Limits = [''cpu'' \<mapsto> \<lparr>q_Milli = 100, q_Format = ''DecimalSI''\<rparr>,
                    ''memory'' \<mapsto> \<lparr>q_Milli = 524288000000, q_Format = ''BinarySI''\<rparr>],
       rr_Requests = [''cpu'' \<mapsto> \<lparr>q_Milli = 100, q_Format = ''DecimalSI''\<rparr>,
                      ''memory'' \<mapsto> \<lparr>q_Milli = 524288000000, q_Format = ''BinarySI''\<rparr>]\<rparr>] \<and>
   map c_Resources (ps_Containers (pod (updated example_deps my_cluster live_statefulSet))) =
     [\<lparr>rr_Limits = [''memory'' \<mapsto> gibi 2], rr_Requests = [''memory'' \<mapsto> gibi 2]\<rparr>]"
proof -
  have setter: "SetControllerReference example_deps (rc_ObjectMeta my_cluster)
       (om_Namespace (sts_ObjectMeta live_statefulSet))
       (om_OwnerReferences (sts_ObjectMeta live_statefulSet))
       = Inr [controllerReference (rc_ObjectMeta my_cluster)]"
    by (simp add: live_meta example_setter)
  have res: "spec_Resources (rc_Spec my_cluster)
     = Some \<lparr>rr_Limits = [''memory'' \<mapsto> gibi 2], rr_Requests = [''memory'' \<mapsto> gibi 2]\<rparr>"
    by (simp add: my_cluster_def)
  from Update_init_container_resources [OF setter example_parse,
      of "\<lparr>rr_Limits = Map.empty, rr_Requests = Map.empty\<rparr>"
         "\<lparr>rr_Limits = [''memory'' \<mapsto> gibi 2], rr_Requests = [''memory'' \<mapsto> gibi 2]\<rparr>"] res
  show ?thesis by blast
qed

section \<open>Build and the storage-claim template\<close>

lemma persistentVolumeClaim_result:
  "persistentVolumeClaim d inst =
     (case p_Storage (spec_Persistence (rc_Spec inst)) of
        None \<Rightarrow> Inl PanicNilPointer
      | Some storage \<Rightarrow>
          (case SetControllerReference d (rc_ObjectMeta inst) (Namespace inst) [] of
             Inl err \<Rightarrow> Inl (setterError err)
           | Inr refs \<Rightarrow>
               Inr [\<lparr>pvc_ObjectMeta =
                       zero_ObjectMeta
                         \<lparr>om_Name := ''persistence'',
                          om_Namespace := Namespace inst,
                          om_Labels := Label d (Name inst),
                          om_Annotations := ReconcileAnnotations d Map.empty (Annotations inst),
                          om_OwnerReferences := refs\<rparr>,
                     pvc_Spec =
                       \<lparr>pvcs_AccessModes = [ReadWriteOnce],
                        pvcs_Resources =
                          \<lparr>rr_Limits = Map.empty, rr_Requests = [''storage'' \<mapsto> storage]\<rparr>,
                        pvcs_StorageClassName =
                          p_StorageClassName (spec_Persistence (rc_Spec inst))\<rparr>\<rparr>]))"
  by (simp add: persistentVolumeClaim_def Let_def zero_ObjectMeta_def
        split: option.splits sum.splits)

lemma statefulSet_result:
  "statefulSet d inst = Inr built \<Longrightarrow>
     persistentVolumeClaim d inst = Inr (ss_VolumeClaimTemplates (sts_Spec built)) \<and>
     om_Name (sts_ObjectMeta built) = ChildResourceName d (Name inst) ''server'' \<and>
     om_Namespace (sts_ObjectMeta built) = Namespace inst \<and>
     om_OwnerReferences (sts_ObjectMeta built) = [] \<and>
     ss_ServiceName (sts_Spec built) = ChildResourceName d (Name inst) (headlessServiceName d) \<and>
     ss_Selector (sts_Spec built) = Some \<lparr>ls_MatchLabels = LabelSelector d (Name inst)\<rparr>"
  by (auto simp: statefulSet_def zero_ObjectMeta_def split: sum.splits)

lemma my_cluster_facts:
  "Namespace my_cluster = ''default''"
  "Name my_cluster = ''my-cluster''"
  "p_Storage (spec_Persistence (rc_Spec my_cluster)) = Some (gibi 10)"
  "spec_Replicas (rc_Spec my_cluster) = 3"
  "spec_Image (rc_Spec my_cluster) = ''broker:3.8.9''"
  by (simp_all add: my_cluster_def Namespace_def Name_def zero_ObjectMeta_def)

lemma Build_result:
  "Build d inst = Inr obj \<longleftrightarrow>
     (\<exists>built. obj = StatefulSetObject built \<and> statefulSet d inst = Inr built)"
  by (auto simp: Build_def split: sum.splits)

lemma statefulSet_made:
  "persistentVolumeClaim d inst = Inr pvcs \<Longrightarrow>
     \<exists>built. statefulSet d inst = Inr built \<and> ss_VolumeClaimTemplates (sts_Spec built) = pvcs"
  by (simp add: statefulSet_def)

text \<open>
  C7. The storage-claim builder produces exactly one claim template. Whenever
  \<^verbatim>\<open>persistentVolumeClaim\<close> returns without an error, which it does exactly when the
  instance has a storage size and the owner reference can be set, it returns a list of
  length one: the claim is named \<^verbatim>\<open>persistence\<close>, has the single access mode ReadWriteOnce,
  requests the storage size of the instance's persistence configuration, has that
  configuration's storage class, and carries the owner references the setter answered for the
  instance as owner. Build stores this list as the volume claim templates of the StatefulSet:
  whenever the storage-claim builder returns a list, Build returns a StatefulSet whose volume
  claim templates are that list, every StatefulSet Build returns carries the list the
  storage-claim builder returns, and Build fails as the storage-claim builder does. Update
  leaves the volume claim templates of the object as they were.
\<close>

theorem storage_claim_template:
  "(persistentVolumeClaim d inst = Inr pvcs \<longrightarrow>
      length pvcs = 1 \<and>
      map claimSummary pvcs = [(''persistence'', [ReadWriteOnce])] \<and>
      map (\<lambda>pvc. rr_Requests (pvcs_Resources (pvc_Spec pvc)) ''storage'') pvcs
        = [p_Storage (spec_Persistence (rc_Spec inst))] \<and>
      p_Storage (spec_Persistence (rc_Spec inst)) \<noteq> None \<and>
      map (\<lambda>pvc. pvcs_StorageClassName (pvc_Spec pvc)) pvcs
        = [p_StorageClassName (spec_Persistence (rc_Spec inst))] \<and>
      map (\<lambda>pvc. Inr (om_OwnerReferences (pvc_ObjectMeta pvc))) pvcs
        = [SetControllerReference d (rc_ObjectMeta inst) (Namespace inst) []]) \<and>
   (p_Storage (spec_Persistence (rc_Spec inst)) \<noteq> None \<and>
    \<not> isl (SetControllerReference d (rc_ObjectMeta inst) (Namespace inst) [])
      \<longrightarrow> \<not> isl (persistentVolumeClaim d inst)) \<and>
   (statefulSet d inst = Inr built \<longrightarrow>
      persistentVolumeClaim d inst = Inr (ss_VolumeClaimTemplates (sts_Spec built))) \<and>
   object (Update d inst (StatefulSetObject sts)) = StatefulSetObject (updated d inst sts) \<and>
   ss_VolumeClaimTemplates (sts_Spec (updated d inst sts)) = ss_VolumeClaimTemplates (sts_Spec sts) \<and>
   (persistentVolumeClaim d inst = Inr pvcs \<longrightarrow>
      (\<exists>made. Build d inst = Inr (StatefulSetObject made) \<and>
          ss_VolumeClaimTemplates (sts_Spec made) = pvcs)) \<and>
   (Build d inst = Inr obj \<longrightarrow>
      (\<exists>made. obj = StatefulSetObject made \<and>
          persistentVolumeClaim d inst = Inr (ss_VolumeClaimTemplates (sts_Spec made)))) \<and>
   (isl (persistentVolumeClaim d inst) \<longrightarrow>
      Build d inst = Inl (projl (persistentVolumeClaim d inst)))"
proof -
  have claim: "persistentVolumeClaim d inst = Inr pvcs \<longrightarrow>
      length pvcs = 1 \<and>
      map claimSummary pvcs = [(''persistence'', [ReadWriteOnce])] \<and>
      map (\<lambda>pvc. rr_Requests (pvcs_Resources (pvc_Spec pvc)) ''storage'') pvcs
        = [p_Storage (spec_Persistence (rc_Spec inst))] \<and>
      p_Storage (spec_Persistence (rc_Spec inst)) \<noteq> None \<and>
      map (\<lambda>pvc. pvcs_StorageClassName (pvc_Spec pvc)) pvcs
        = [p_StorageClassName (spec_Persistence (rc_Spec inst))] \<and>
      map (\<lambda>pvc. Inr (om_OwnerReferences (pvc_ObjectMeta pvc))) pvcs
        = [SetControllerReference d (rc_ObjectMeta inst) (Namespace inst) []]"
    by (auto simp: persistentVolumeClaim_result claimSummary_def split: option.splits sum.splits)
  have returns: "p_Storage (spec_Persistence (rc_Spec inst)) \<noteq> None \<and>
    \<not> isl (SetControllerReference d (rc_ObjectMeta inst) (Namespace inst) [])
      \<longrightarrow> \<not> isl (persistentVolumeClaim d inst)"
    by (auto simp: persistentVolumeClaim_result split: option.splits sum.splits)
  have stored: "statefulSet d inst = Inr built \<longrightarrow>
      persistentVolumeClaim d inst = Inr (ss_VolumeClaimTemplates (sts_Spec built))"
    using statefulSet_result[of d inst built] by blast
  have kept: "object (Update d inst (StatefulSetObject sts)) = StatefulSetObject (updated d inst sts)"
    "ss_VolumeClaimTemplates (sts_Spec (updated d inst sts)) = ss_VolumeClaimTemplates (sts_Spec sts)"
    by (simp_all add: Update_sts updated_frame)
  have built: "\<exists>made. Build d inst = Inr (StatefulSetObject made) \<and>
          ss_VolumeClaimTemplates (sts_Spec made) = pvcs"
    if "persistentVolumeClaim d inst = Inr pvcs"
    using statefulSet_made[OF that] by (auto simp: Build_def)
  have only: "\<exists>made. obj = StatefulSetObject made \<and>
          persistentVolumeClaim d inst = Inr (ss_VolumeClaimTemplates (sts_Spec made))"
    if "Build d inst = Inr obj"
  proof -
    from that obtain made where "obj = StatefulSetObject made" "statefulSet d inst = Inr made"
      unfolding Build_result by blast
    with statefulSet_result[of d inst made] show ?thesis by blast
  qed
  have fails: "Build d inst = Inl (projl (persistentVolumeClaim d inst))"
    if "isl (persistentVolumeClaim d inst)"
    using that by (cases "persistentVolumeClaim d inst") (simp_all add: Build_def statefulSet_def)
  from claim returns stored kept built only fails show ?thesis by blast
qed

theorem storage_claim_template_witness:
  "\<not> isl (persistentVolumeClaim example_deps my_cluster) \<and>
   length (projr (persistentVolumeClaim example_deps my_cluster)) = 1 \<and>
   map claimSummary (projr (persistentVolumeClaim example_deps my_cluster))
     = [(''persistence'', [ReadWriteOnce])] \<and>
   \<not> isl (Build example_deps my_cluster) \<and>
   map_option (\<lambda>made. map claimSummary (ss_VolumeClaimTemplates (sts_Spec made)))
       (statefulSetOf (projr (Build example_deps my_cluster)))
     = Some [(''persistence'', [ReadWriteOnce])] \<and>
   isl (persistentVolumeClaim example_deps my_cluster_without_storage) \<and>
   Build example_deps my_cluster_without_storage = Inl PanicNilPointer"
proof -
  note claim = storage_claim_template
    [where d = example_deps and inst = my_cluster
       and pvcs = "projr (persistentVolumeClaim example_deps my_cluster)"
       and built = "projr (statefulSet example_deps my_cluster)"
       and sts = live_statefulSet
       and obj = "projr (Build example_deps my_cluster)"]
  note without = storage_claim_template
    [where d = example_deps and inst = my_cluster_without_storage
       and pvcs = "[]" and built = live_statefulSet and sts = live_statefulSet
       and obj = NilStatefulSetObject]
  have "p_Storage (spec_Persistence (rc_Spec my_cluster)) \<noteq> None"
    and "\<not> isl (SetControllerReference example_deps (rc_ObjectMeta my_cluster)
                  (Namespace my_cluster) [])"
    by (simp_all add: my_cluster_facts example_setter)
  with claim have made: "\<not> isl (persistentVolumeClaim example_deps my_cluster)" by blast
  then have pvc: "persistentVolumeClaim example_deps my_cluster
      = Inr (projr (persistentVolumeClaim example_deps my_cluster))" by simp
  with claim have summary: "length (projr (persistentVolumeClaim example_deps my_cluster)) = 1"
    "map claimSummary (projr (persistentVolumeClaim example_deps my_cluster))
       = [(''persistence'', [ReadWriteOnce])]"
    by blast+
  from claim pvc obtain B where
    b: "Build example_deps my_cluster = Inr (StatefulSetObject B)"
      "ss_VolumeClaimTemplates (sts_Spec B) = projr (persistentVolumeClaim example_deps my_cluster)"
    by blast
  have panic: "persistentVolumeClaim example_deps my_cluster_without_storage = Inl PanicNilPointer"
    by (simp add: persistentVolumeClaim_def my_cluster_without_storage_def)
  then have "isl (persistentVolumeClaim example_deps my_cluster_without_storage)" by simp
  with without panic
  have "Build example_deps my_cluster_without_storage = Inl PanicNilPointer"
    by - (elim conjE, simp)
  with made summary b panic show ?thesis by (simp add: statefulSetOf_def)
qed

section \<open>The end-to-end scenario\<close>

lemma persistentVolumeClaim_summary:
  "persistentVolumeClaim d inst = Inr pvcs \<Longrightarrow>
     map claimSummary pvcs = [(''persistence'', [ReadWriteOnce])]"
  by (auto simp: persistentVolumeClaim_result claimSummary_def split: option.splits sum.splits)

lemma reconciled_cases:
  assumes "reconciled (BuildThenUpdate d inst) = Some sts"
  obtains built where "statefulSet d inst = Inr built"
    and "failure (Update d inst (StatefulSetObject built)) = None"
    and "sts = updated d inst built"
  using assms
  by (auto simp: reconciled_def BuildThenUpdate_def Build_def statefulSetOf_def Update_sts
        split: sum.splits option.splits)

lemma updated_success:
  assumes "failure (Update d inst (StatefulSetObject sts)) = None"
  shows "ss_Replicas (sts_Spec (updated d inst sts)) = Some (spec_Replicas (rc_Spec inst))"
    and "map c_Image (ps_Containers (pod (updated d inst sts))) = [spec_Image (rc_Spec inst)]"
    and "SetControllerReference d (rc_ObjectMeta inst) (om_Namespace (sts_ObjectMeta sts))
           (om_OwnerReferences (sts_ObjectMeta sts))
         = Inr (om_OwnerReferences (sts_ObjectMeta (updated d inst sts)))"
    and "map containerPorts (ps_Containers (pod (updated d inst sts))) = [[4369, 5672, 15672, 15692]]"
proof -
  let ?P = "prepared d inst sts"
  from assms have ok: "failure (setStatefulSetParams d inst ?P) = None"
    by (simp add: Update_sts)
  then obtain refs cpuRequest memoryRequest resources where c:
    "SetControllerReference d (rc_ObjectMeta inst)
             (om_Namespace (sts_ObjectMeta ?P)) (om_OwnerReferences (sts_ObjectMeta ?P)) = Inr refs"
    "ParseQuantity d initContainerCPU = Inr cpuRequest"
    "ParseQuantity d initContainerMemory = Inr memoryRequest"
    "spec_Resources (rc_Spec inst) = Some resources"
    "ps_InitContainers (pod ?P) \<noteq> []"
    "ps_Containers (pod ?P) \<noteq> []"
    by (rule params_success_cases)
  have u: "updated d inst sts = configured d inst refs cpuRequest memoryRequest resources ?P"
    by (simp add: updated_eq params_ok[OF c])
  show "ss_Replicas (sts_Spec (updated d inst sts)) = Some (spec_Replicas (rc_Spec inst))"
    by (simp add: u configured_def on_defs)
  show "map c_Image (ps_Containers (pod (updated d inst sts))) = [spec_Image (rc_Spec inst)]"
    by (simp add: u configured_def on_defs prepared_def)
  show "SetControllerReference d (rc_ObjectMeta inst) (om_Namespace (sts_ObjectMeta sts))
           (om_OwnerReferences (sts_ObjectMeta sts))
         = Inr (om_OwnerReferences (sts_ObjectMeta (updated d inst sts)))"
    using c(1) by (simp add: u configured_def on_defs)
  have "map c_Ports (ps_Containers (pod (updated d inst sts))) = [rabbitmqPorts]"
    by (simp add: updated_eq params_frame rabbitmqContainer_def)
  then have "map containerPorts (ps_Containers (pod (updated d inst sts)))
      = [map cp_ContainerPort rabbitmqPorts]"
    by (cases "ps_Containers (pod (updated d inst sts))") (auto simp: containerPorts_def)
  then show "map containerPorts (ps_Containers (pod (updated d inst sts)))
      = [[4369, 5672, 15672, 15692]]"
    by (simp add: rabbitmqPorts_def port_def)
qed

text \<open>
  The first Update after Build does change the object: Build leaves the replica count unset
  and the pod template empty, Update fills them in. Idempotence is about the Update after.
\<close>

lemma first_Update_completes_the_skeleton:
  assumes "statefulSet d inst = Inr built"
    and "failure (Update d inst (StatefulSetObject built)) = None"
  shows "ss_Replicas (sts_Spec built) = None"
    and "ss_Replicas (sts_Spec (updated d inst built)) = Some (spec_Replicas (rc_Spec inst))"
    and "updated d inst built \<noteq> built"
proof -
  from assms(1) show none: "ss_Replicas (sts_Spec built) = None"
    by (auto simp: statefulSet_def split: sum.splits)
  show some: "ss_Replicas (sts_Spec (updated d inst built)) = Some (spec_Replicas (rc_Spec inst))"
    by (rule updated_success(1)[OF assms(2)])
  from none some show "updated d inst built \<noteq> built" by auto
qed

text \<open>
  C5 (as amended). For an instance named \<^verbatim>\<open>my-cluster\<close> with 3 replicas and the image
  \<^verbatim>\<open>broker:3.8.9\<close>, a Build followed by an Update, neither of which failed, ends with a
  StatefulSet named \<^verbatim>\<open>my-cluster-rabbitmq-server\<close> (the name under which the kubectl plugin's
  \<^verbatim>\<open>observe\<close> finds its pods), with the replica count 3, exactly one volume claim
  template, named \<^verbatim>\<open>persistence\<close> with the single access mode ReadWriteOnce, one main
  container with that image and exactly the four ports 4369, 5672, 15672 and 15692, and the
  owner references the setter answered for the instance \<^verbatim>\<open>my-cluster\<close> as owner.
\<close>

theorem BuildThenUpdate_scenario:
  assumes "reconciled (BuildThenUpdate d inst) = Some sts"
    and "Name inst = ''my-cluster''"
    and "spec_Replicas (rc_Spec inst) = 3"
    and "spec_Image (rc_Spec inst) = ''broker:3.8.9''"
    and "\<And>ordinal. statefulSetPodName (ChildResourceName d (Name inst) ''server'') ordinal
                     = observe (Name inst) ordinal"
  shows "om_Name (sts_ObjectMeta sts) = ''my-cluster-rabbitmq-server'' \<and>
         ss_Replicas (sts_Spec sts) = Some 3 \<and>
         map claimSummary (ss_VolumeClaimTemplates (sts_Spec sts))
           = [(''persistence'', [ReadWriteOnce])] \<and>
         map containerPorts (ps_Containers (pod sts)) = [[4369, 5672, 15672, 15692]] \<and>
         map c_Image (ps_Containers (pod sts)) = [''broker:3.8.9''] \<and>
         SetControllerReference d (rc_ObjectMeta inst) (Namespace inst) []
           = Inr (om_OwnerReferences (sts_ObjectMeta sts)) \<and>
         om_Name (rc_ObjectMeta inst) = ''my-cluster''"
proof -
  from assms(1) obtain built where b: "statefulSet d inst = Inr built"
    and ok: "failure (Update d inst (StatefulSetObject built)) = None"
    and sts: "sts = updated d inst built"
    by (rule reconciled_cases)
  note built = statefulSet_result[OF b]
  from built have pvc: "persistentVolumeClaim d inst = Inr (ss_VolumeClaimTemplates (sts_Spec built))"
    by blast
  from pvc have claims: "map claimSummary (ss_VolumeClaimTemplates (sts_Spec built))
           = [(''persistence'', [ReadWriteOnce])]"
    by (rule persistentVolumeClaim_summary)
  from assms(5)[of "[]"] assms(2)
  have name: "ChildResourceName d (Name inst) ''server'' = ''my-cluster-rabbitmq-server''"
    by (simp add: statefulSetPodName_def observe_def)
  show ?thesis
    using built claims assms(2-4) updated_success[OF ok] name
    by (simp add: sts updated_frame Name_def)
qed

lemma example_statefulSet:
  "\<exists>built. statefulSet example_deps my_cluster = Inr built"
  by (simp add: statefulSet_def persistentVolumeClaim_result my_cluster_facts example_setter)

lemma example_reconciled:
  "reconciled (BuildThenUpdate example_deps my_cluster)
     = Some (updated example_deps my_cluster (projr (statefulSet example_deps my_cluster)))"
proof -
  obtain B where b: "statefulSet example_deps my_cluster = Inr B"
    using example_statefulSet ..
  note built = statefulSet_result[OF b]
  have "failure (Update example_deps my_cluster (StatefulSetObject B)) = None"
    using built
    by (simp add: Update_failure my_cluster_facts example_setter example_parse)
       (simp add: my_cluster_def)
  moreover have "Build example_deps my_cluster = Inr (StatefulSetObject B)"
    by (simp add: Build_def b)
  ultimately show ?thesis
    by (simp add: reconciled_def BuildThenUpdate_def statefulSetOf_def Update_sts b)
qed

lemma example_built:
  "om_Name (sts_ObjectMeta (projr (statefulSet example_deps my_cluster)))
     = ChildResourceName example_deps (Name my_cluster) ''server''"
proof -
  obtain B where b: "statefulSet example_deps my_cluster = Inr B"
    using example_statefulSet ..
  from statefulSet_result[OF b] show ?thesis by (simp add: b)
qed

theorem BuildThenUpdate_scenario_witness:
  "reconciled (BuildThenUpdate example_deps my_cluster)
     = Some (updated example_deps my_cluster (projr (statefulSet example_deps my_cluster))) \<and>
   om_Name (sts_ObjectMeta
     (updated example_deps my_cluster (projr (statefulSet example_deps my_cluster))))
     = ''my-cluster-rabbitmq-server'' \<and>
   ss_Replicas (sts_Spec
     (updated example_deps my_cluster (projr (statefulSet example_deps my_cluster)))) = Some 3 \<and>
   map claimSummary (ss_VolumeClaimTemplates (sts_Spec
     (updated example_deps my_cluster (projr (statefulSet example_deps my_cluster)))))
     = [(''persistence'', [ReadWriteOnce])] \<and>
   map containerPorts (ps_Containers (pod
     (updated example_deps my_cluster (projr (statefulSet example_deps my_cluster)))))
     = [[4369, 5672, 15672, 15692]] \<and>
   om_OwnerReferences (sts_ObjectMeta
     (updated example_deps my_cluster (projr (statefulSet example_deps my_cluster))))
     = [controllerReference (rc_ObjectMeta my_cluster)] \<and>
   or_Name (controllerReference (rc_ObjectMeta my_cluster)) = ''my-cluster'' \<and>
   or_Controller (controllerReference (rc_ObjectMeta my_cluster)) = Some True"
proof -
  have deps: "statefulSetPodName (ChildResourceName example_deps (Name my_cluster) ''server'')
                ordinal = observe (Name my_cluster) ordinal" for ordinal
    by (simp add: example_deps_def reference_deps_def ChildResourceName_model_def
          statefulSetPodName_def observe_def)
  have owner: "or_Name (controllerReference (rc_ObjectMeta my_cluster)) = ''my-cluster''"
    "or_Controller (controllerReference (rc_ObjectMeta my_cluster)) = Some True"
    by (simp_all add: controllerReference_def my_cluster_def zero_ObjectMeta_def)
  from BuildThenUpdate_scenario [OF example_reconciled my_cluster_facts(2,4,5) deps]
  show ?thesis
    by (simp add: example_reconciled owner my_cluster_facts example_setter)
qed

text \<open>
  C5 as stated fails in the name alone: with child names as the kubectl plugin finds them,
  the StatefulSet of \<^verbatim>\<open>my-cluster\<close> is \<^verbatim>\<open>my-cluster-rabbitmq-server\<close>, not
  \<^verbatim>\<open>my-cluster-server\<close>; \<^verbatim>\<open>observe my-cluster 0\<close> addresses pod 0 of the former and no pod
  of the latter.
\<close>

theorem BuildThenUpdate_name_counterexample:
  "workloadName (BuildThenUpdate example_deps my_cluster) = Some ''my-cluster-rabbitmq-server'' \<and>
   workloadName (BuildThenUpdate example_deps my_cluster) \<noteq> Some ''my-cluster-server'' \<and>
   observe ''my-cluster'' ''0'' = statefulSetPodName ''my-cluster-rabbitmq-server'' ''0'' \<and>
   observe ''my-cluster'' ''0'' \<noteq> statefulSetPodName ''my-cluster-server'' ''0''"
proof -
  have "workloadName (BuildThenUpdate example_deps my_cluster)
      = Some (ChildResourceName example_deps (Name my_cluster) ''server'')"
    by (simp add: workloadName_def example_reconciled updated_frame example_built)
  then show ?thesis
    by (simp add: example_deps_def reference_deps_def ChildResourceName_model_def my_cluster_facts
          observe_def statefulSetPodName_def)
qed

text \<open>
  The kubectl plugin and the naming model agree: the pod \<^verbatim>\<open>observe\<close> addresses is the pod of
  the StatefulSet \<^verbatim>\<open><instance>-rabbitmq-server\<close> with the given ordinal, and the secret and
  the service \<^verbatim>\<open>get_instance_details\<close> uses are the children \<^verbatim>\<open>admin\<close> and \<^verbatim>\<open>client\<close>.
\<close>

lemma observe_addresses_statefulSet_pod:
  "observe instance ordinal = statefulSetPodName (ChildResourceName_model instance ''server'') ordinal"
  by (simp add: observe_def statefulSetPodName_def ChildResourceName_model_def)

lemma get_instance_details_names:
  "get_instance_details_secret instance = ChildResourceName_model instance ''admin''"
  "get_instance_details_service instance = ChildResourceName_model instance ''client''"
  by (simp_all add: get_instance_details_secret_def get_instance_details_service_def
        ChildResourceName_model_def)

section \<open>The node identity\<close>

lemma expand_plain: "CHR ''$'' \<notin> set s \<Longrightarrow> expand env s = s"
  by (induction s) auto

lemma updated_Env:
  "map c_Env (ps_Containers (pod (updated d inst sts))) = [rabbitmqEnv d inst]"
  by (simp add: updated_eq params_frame rabbitmqContainer_def)

lemma resolved_node_name:
  assumes "CHR ''$'' \<notin> set (ChildResourceName d (Name inst) ''headless'')"
  shows "resolveEnv p Map.empty (rabbitmqEnv d inst) ''RABBITMQ_NODENAME'' =
           Some (''rabbit@'' @ pod_Name p @ ''.'' @ ChildResourceName d (Name inst) ''headless''
                 @ ''.'' @ pod_Namespace p @ ''.svc.cluster.local'')"
    and "resolveEnv p Map.empty (rabbitmqEnv d inst) ''RABBITMQ_USE_LONGNAME'' = Some ''true''"
  using assms
  by (simp_all add: rabbitmqEnv_def env_value_def env_field_def fieldValue_def expand_plain)

text \<open>
  C8. The main container's environment fixes the node identity. Whatever the outcome of
  Update, the one main container of the object has the environment \<open>rabbitmqEnv\<close>: it takes
  \<^verbatim>\<open>MY_POD_NAME\<close> and \<^verbatim>\<open>MY_POD_NAMESPACE\<close> from the pod's own name and namespace, sets
  \<^verbatim>\<open>K8S_SERVICE_NAME\<close> to the instance's child name \<^verbatim>\<open>headless\<close> (the service name Build
  gives the StatefulSet when the headless suffix is \<^verbatim>\<open>headless\<close>), sets
  \<^verbatim>\<open>RABBITMQ_USE_LONGNAME\<close> to \<^verbatim>\<open>true\<close> and \<^verbatim>\<open>RABBITMQ_NODENAME\<close> to
  \<^verbatim>\<open>rabbit@$(MY_POD_NAME).$(K8S_SERVICE_NAME).$(MY_POD_NAMESPACE).svc.cluster.local\<close>. Resolved
  in a pod, the node name is \<^verbatim>\<open>rabbit@<pod>.<service>.<namespace>.svc.cluster.local\<close>: a
  function of the pod name, the service name and the namespace and of nothing else (for a
  service name without a dollar sign).
\<close>

theorem node_identity_environment:
  "map c_Env (ps_Containers (pod (updated d inst sts))) = [rabbitmqEnv d inst] \<and>
   env_field ''MY_POD_NAME'' ''metadata.name'' \<in> set (rabbitmqEnv d inst) \<and>
   env_field ''MY_POD_NAMESPACE'' ''metadata.namespace'' \<in> set (rabbitmqEnv d inst) \<and>
   env_value ''K8S_SERVICE_NAME'' (ChildResourceName d (Name inst) ''headless'')
     \<in> set (rabbitmqEnv d inst) \<and>
   env_value ''RABBITMQ_USE_LONGNAME'' ''true'' \<in> set (rabbitmqEnv d inst) \<and>
   env_value ''RABBITMQ_NODENAME''
       ''rabbit@$(MY_POD_NAME).$(K8S_SERVICE_NAME).$(MY_POD_NAMESPACE).svc.cluster.local''
     \<in> set (rabbitmqEnv d inst) \<and>
   (headlessServiceName d = ''headless'' \<and> statefulSet d inst = Inr built \<longrightarrow>
      ss_ServiceName (sts_Spec built) = ChildResourceName d (Name inst) ''headless'') \<and>
   (CHR ''$'' \<notin> set (ChildResourceName d (Name inst) ''headless'') \<longrightarrow>
      resolveEnv p Map.empty (rabbitmqEnv d inst) ''RABBITMQ_NODENAME'' =
        Some (''rabbit@'' @ pod_Name p @ ''.'' @ ChildResourceName d (Name inst) ''headless''
              @ ''.'' @ pod_Namespace p @ ''.svc.cluster.local'') \<and>
      resolveEnv p Map.empty (rabbitmqEnv d inst) ''RABBITMQ_USE_LONGNAME'' = Some ''true'')"
proof -
  have listed:
    "env_field ''MY_POD_NAME'' ''metadata.name'' \<in> set (rabbitmqEnv d inst)"
    "env_field ''MY_POD_NAMESPACE'' ''metadata.namespace'' \<in> set (rabbitmqEnv d inst)"
    "env_value ''K8S_SERVICE_NAME'' (ChildResourceName d (Name inst) ''headless'')
       \<in> set (rabbitmqEnv d inst)"
    "env_value ''RABBITMQ_USE_LONGNAME'' ''true'' \<in> set (rabbitmqEnv d inst)"
    "env_value ''RABBITMQ_NODENAME''
       ''rabbit@$(MY_POD_NAME).$(K8S_SERVICE_NAME).$(MY_POD_NAMESPACE).svc.cluster.local''
       \<in> set (rabbitmqEnv d inst)"
    by (simp_all add: rabbitmqEnv_def)
  have service: "ss_ServiceName (sts_Spec built) = ChildResourceName d (Name inst) ''headless''"
    if "headlessServiceName d = ''headless''" and "statefulSet d inst = Inr built"
    using statefulSet_result[OF that(2)] that(1) by simp
  show ?thesis
    using listed service resolved_node_name[of d inst p]
    by (simp add: updated_Env)
qed

theorem node_identity_environment_witness:
  "resolveEnv \<lparr>pod_Name = ''my-cluster-rabbitmq-server-0'', pod_Namespace = ''default''\<rparr>
     Map.empty (rabbitmqEnv example_deps my_cluster) ''RABBITMQ_NODENAME''
     = Some ''rabbit@my-cluster-rabbitmq-server-0.my-cluster-rabbitmq-headless.default.svc.cluster.local'' \<and>
   resolveEnv \<lparr>pod_Name = ''my-cluster-rabbitmq-server-0'', pod_Namespace = ''default''\<rparr>
     Map.empty (rabbitmqEnv example_deps my_cluster) ''RABBITMQ_USE_LONGNAME'' = Some ''true''"
proof -
  have name: "ChildResourceName example_deps (Name my_cluster) ''headless''
                = ''my-cluster-rabbitmq-headless''"
    by (simp add: example_deps_def reference_deps_def ChildResourceName_model_def my_cluster_facts)
  have plain: "CHR ''$'' \<notin> set (ChildResourceName example_deps (Name my_cluster) ''headless'')"
    by (simp add: name)
  from node_identity_environment
      [of example_deps my_cluster live_statefulSet "projr (statefulSet example_deps my_cluster)"
          "\<lparr>pod_Name = ''my-cluster-rabbitmq-server-0'', pod_Namespace = ''default''\<rparr>"]
    plain
  show ?thesis by (simp add: name)
qed

section \<open>The termination protocol\<close>



end
